theory Spec2Isabelle
  imports Complex_Main "HOL-Library.AList"
begin

section \<open>Python values used by \<open>aio_price.py\<close>\<close>

text \<open>
  A Python float is one of the two infinities, not-a-number, or a finite double.
  A finite double is carried by the decimal number it was read from: \<open>Finite r\<close> stands
  for the double nearest to \<open>r\<close>. Equal decimals give equal doubles; the rounding of
  the low bits is not modelled, the overflow to infinity is (see \<open>round_double\<close>).
\<close>

datatype pyfloat = Finite rat | PosInf | NegInf | NaN

text \<open>The value of a price record: \<open>None\<close> or a float.\<close>

datatype pyval = PyNone | PyFloat pyfloat

text \<open>
  The exceptions that the modelled code can raise. \<open>InvalidValueException\<close> is declared
  in the source as a subclass of \<open>ValueError\<close>; \<open>ClientError\<close> is
  \<open>aiohttp.ClientError\<close>.
\<close>

datatype error = ValueError | KeyError | AttributeError | InvalidValueException | ClientError

text \<open>\<open>isinstance(e, ValueError)\<close>, as an \<open>except ValueError\<close> clause tests it.\<close>

definition is_ValueError :: "error \<Rightarrow> bool" where
  "is_ValueError e = (e = ValueError \<or> e = InvalidValueException)"

section \<open>The builtin \<open>float(str)\<close>\<close>

text \<open>
  Python's \<open>float\<close> on a string, for ASCII input: surrounding whitespace (tab to
  carriage return, and the space) is removed,
  underscores are accepted between digits only, then an optional sign is followed by
  \<open>inf\<close>, \<open>infinity\<close> or \<open>nan\<close> in any case, or by a decimal number with an optional
  exponent. Anything else raises \<open>ValueError\<close>.
\<close>

definition is_digit :: "char \<Rightarrow> bool" where
  "is_digit c = (48 \<le> (of_char c :: nat) \<and> (of_char c :: nat) \<le> 57)"

definition digit_val :: "char \<Rightarrow> int" where
  "digit_val c = int (of_char c) - 48"

definition py_isspace :: "char \<Rightarrow> bool" where
  "py_isspace c = ((9 \<le> (of_char c :: nat) \<and> (of_char c :: nat) \<le> 13)
                   \<or> (of_char c :: nat) = 32)"

definition strip :: "string \<Rightarrow> string" where
  "strip s = rev (dropWhile py_isspace (rev (dropWhile py_isspace s)))"

text \<open>
  The underscore pass: an underscore must follow a digit and precede a digit; the
  underscores are dropped. \<open>prev\<close> is the character before the current one.
\<close>

fun drop_underscores :: "char \<Rightarrow> string \<Rightarrow> string option" where
  "drop_underscores prev [] = (if prev = CHR ''_'' then None else Some [])"
| "drop_underscores prev (c # cs) =
     (if c = CHR ''_'' then
        (if is_digit prev then drop_underscores c cs else None)
      else if prev = CHR ''_'' \<and> \<not> is_digit c then None
      else map_option ((#) c) (drop_underscores c cs))"

definition lower :: "char \<Rightarrow> char" where
  "lower c = (if 65 \<le> (of_char c :: nat) \<and> (of_char c :: nat) \<le> 90
              then char_of ((of_char c :: nat) + 32) else c)"

text \<open>An optional sign: whether it is a minus, and the rest.\<close>

fun split_sign :: "string \<Rightarrow> bool \<times> string" where
  "split_sign [] = (False, [])"
| "split_sign (c # cs) =
     (if c = CHR ''-'' then (True, cs)
      else if c = CHR ''+'' then (False, cs)
      else (False, c # cs))"

definition digits_to_int :: "string \<Rightarrow> int" where
  "digits_to_int ds = foldl (\<lambda>n c. 10 * n + digit_val c) 0 ds"

text \<open>The exponent part: empty, or \<open>e\<close>/\<open>E\<close>, an optional sign and at least one digit.\<close>

fun parse_exponent :: "string \<Rightarrow> int option" where
  "parse_exponent [] = Some 0"
| "parse_exponent (c # cs) =
     (if c = CHR ''e'' \<or> c = CHR ''E'' then
        (case split_sign cs of (neg, ds) \<Rightarrow>
           if ds \<noteq> [] \<and> list_all is_digit ds
           then Some (if neg then - digits_to_int ds else digits_to_int ds)
           else None)
      else None)"

text \<open>
  A decimal number: digits, an optional point, digits, with at least one digit in all,
  and the exponent. The result is the mantissa and the power of ten.
\<close>

definition parse_decimal :: "string \<Rightarrow> (int \<times> int) option" where
  "parse_decimal body =
     (let ip = takeWhile is_digit body;
          r1 = dropWhile is_digit body;
          fp = (case r1 of [] \<Rightarrow> []
                | c # cs \<Rightarrow> if c = CHR ''.'' then takeWhile is_digit cs else []);
          r2 = (case r1 of [] \<Rightarrow> []
                | c # cs \<Rightarrow> if c = CHR ''.'' then dropWhile is_digit cs else r1)
      in if ip = [] \<and> fp = [] then None
         else (case parse_exponent r2 of
                 None \<Rightarrow> None
               | Some e \<Rightarrow> Some (digits_to_int (ip @ fp), e - int (length fp))))"

text \<open>
  Rounding to a double: a magnitude of at least \<open>2^1024 - 2^970\<close>, halfway between
  the largest double and \<open>2^1024\<close>, becomes an infinity.
\<close>

definition round_double :: "rat \<Rightarrow> pyfloat" where
  "round_double r =
     (if 2 ^ 1024 - 2 ^ 970 \<le> r then PosInf
      else if r \<le> - (2 ^ 1024 - 2 ^ 970) then NegInf
      else Finite r)"

definition decimal_value :: "int \<Rightarrow> int \<Rightarrow> rat" where
  "decimal_value m e =
     (if 0 \<le> e then of_int m * 10 ^ nat e else of_int m / 10 ^ nat (- e))"

definition py_float :: "string \<Rightarrow> error + pyfloat" where
  "py_float s =
     (case drop_underscores (CHR 0x00) (strip s) of
        None \<Rightarrow> Inl ValueError
      | Some u \<Rightarrow>
          (case split_sign u of (neg, body) \<Rightarrow>
             if map lower body = ''inf'' \<or> map lower body = ''infinity''
             then Inr (if neg then NegInf else PosInf)
             else if map lower body = ''nan'' then Inr NaN
             else (case parse_decimal body of
                     None \<Rightarrow> Inl ValueError
                   | Some (m, e) \<Rightarrow>
                       Inr (round_double (decimal_value (if neg then - m else m) e)))))"

section \<open>The numeric normalizer \<open>AioPrices._conv_to_float\<close>\<close>

text \<open>\<open>s.replace(old, new)\<close> for a one-character \<open>old\<close>.\<close>

definition replace :: "char \<Rightarrow> string \<Rightarrow> string \<Rightarrow> string" where
  "replace old new s = concat (map (\<lambda>c. if c = old then new else [c]) s)"

text \<open>
  \<open>float(s.replace(",", ".").replace(" ", ""))\<close>, with \<open>except ValueError\<close> returning
  infinity; any other exception would propagate.
\<close>

definition conv_to_float :: "string \<Rightarrow> error + pyfloat" where
  "conv_to_float s =
     (case py_float (replace (CHR '' '') '''' (replace (CHR '','') ''.'' s)) of
        Inl e \<Rightarrow> if is_ValueError e then Inr PosInf else Inl e
      | Inr x \<Rightarrow> Inr x)"

section \<open>Instants, zones and local wall-clock time\<close>

text \<open>
  An instant is a count of microseconds since the epoch, in UTC. A wall-clock reading
  (the year to microsecond fields of a \<open>datetime\<close>) is a count of microseconds too, so a
  calendar day is a block of \<open>86400000000\<close> of them. The range of \<open>datetime\<close> (years 1
  to 9999) is not modelled.

  A \<open>tzinfo\<close> gives the UTC offset in force at an instant. \<open>tz.gettz\<close> reads the zone
  database of the machine, so it is a parameter \<open>gettz\<close> of the merge, taken to know every
  zone name of the table \<open>tzs\<close>.
\<close>

type_synonym tzinfo = "int \<Rightarrow> int"

text \<open>
  \<open>d.astimezone(zone)\<close>: the wall-clock reading of the instant in the zone. All the
  datetimes the merge compares carry the same \<open>zone\<close> object, and Python compares two
  datetimes of one \<open>tzinfo\<close> by their wall-clock fields, so the comparisons below are
  comparisons of these readings.
\<close>

definition astimezone :: "tzinfo \<Rightarrow> int \<Rightarrow> int" where
  "astimezone zone t = t + zone t"

text \<open>\<open>.replace(hour=0, minute=0, second=0, microsecond=0)\<close> on a wall-clock reading.\<close>

definition replace_midnight :: "int \<Rightarrow> int" where
  "replace_midnight w = w - w mod 86400000000"

text \<open>\<open>.replace(hour=23, minute=59, second=59, microsecond=999999)\<close>.\<close>

definition replace_last_microsecond :: "int \<Rightarrow> int" where
  "replace_last_microsecond w = w - w mod 86400000000 + 86399999999"

text \<open>
  The argument \<open>dt\<close> of the merge, which \<open>fetch\<close> passes on as it received it: \<open>None\<close>,
  a \<open>datetime\<close> (an instant; Python reads a \<open>datetime\<close> without zone as local time of
  the machine), a \<open>date\<close> (a day number) or a string. Only a \<open>datetime\<close> has the
  method \<open>astimezone\<close>.
\<close>

datatype end_date = NoneDate | Datetime int | Date int | DateStr string

section \<open>Pages, areas and records\<close>

text \<open>One price record, the dictionary with the keys \<open>start\<close>, \<open>end\<close> and \<open>value\<close>.\<close>

record price =
  p_start :: int
  p_end :: int
  p_value :: pyval

text \<open>
  The dictionary of one area: the entry under the key \<open>values\<close> (\<open>None\<close> when the key is
  absent) and the other entries, the metadata, in insertion order.
\<close>

record area =
  vals :: "price list option"
  meta :: "(string \<times> pyval) list"

text \<open>
  One parsed page: the entry under the key \<open>areas\<close> (\<open>None\<close> when the key is absent), a
  dictionary from area code to area, in insertion order. The other keys of a page are
  not read by the merge.
\<close>

record page =
  areas :: "(string \<times> area) list option"

text \<open>
  The result \<open>fin\<close>, a \<open>defaultdict(dict)\<close> of which only the key \<open>areas\<close> is ever
  touched: \<open>None\<close> while that key is absent, else the dictionary from area code to area.
\<close>

type_synonym fin = "(string \<times> area) list option"

text \<open>The table \<open>tzs\<close>. The last letter of the twelfth key is U+00F8, two bytes in UTF-8.\<close>

definition tzs :: "string \<Rightarrow> string option" where
  "tzs = map_of
     [(''DK1'', ''Europe/Copenhagen''),
      (''DK2'', ''Europe/Copenhagen''),
      (''FI'', ''Europe/Helsinki''),
      (''EE'', ''Europe/Tallinn''),
      (''LT'', ''Europe/Vilnius''),
      (''LV'', ''Europe/Riga''),
      (''Oslo'', ''Europe/Oslo''),
      (''Kr.sand'', ''Europe/Oslo''),
      (''Bergen'', ''Europe/Oslo''),
      (''Molde'', ''Europe/Oslo''),
      (''Tr.heim'', ''Europe/Oslo''),
      (''Troms'' @ [CHR 0xC3, CHR 0xB8], ''Europe/Oslo''),
      (''SE1'', ''Europe/Stockholm''),
      (''SE2'', ''Europe/Stockholm''),
      (''SE3'', ''Europe/Stockholm''),
      (''SE4'', ''Europe/Stockholm''),
      (''SYS'', ''Europe/Stockholm''),
      (''FR'', ''Europe/Paris''),
      (''NL'', ''Europe/Amsterdam''),
      (''BE'', ''Europe/Brussels''),
      (''AT'', ''Europe/Vienna''),
      (''DE-LU'', ''Europe/Berlin'')]"

text \<open>\<open>v in INVALID_VALUES\<close>, the frozen set of \<open>None\<close> and \<open>float("inf")\<close>.\<close>

definition INVALID_VALUES :: "pyval set" where
  "INVALID_VALUES = {PyNone, PyFloat PosInf}"

text \<open>\<open>d.update(src)\<close> on a dictionary kept in insertion order.\<close>

definition dict_update :: "('k \<times> 'v) list \<Rightarrow> ('k \<times> 'v) list \<Rightarrow> ('k \<times> 'v) list" where
  "dict_update d src = fold (\<lambda>(k, v). AList.update k v) src d"

text \<open>
  \<open>d.update(src)\<close> on an area dictionary: every key of \<open>src\<close> is written into \<open>d\<close>, the
  key \<open>values\<close> too when \<open>src\<close> has it.
\<close>

definition area_update :: "area \<Rightarrow> area \<Rightarrow> area" where
  "area_update d src =
     \<lparr>vals = (case vals src of None \<Rightarrow> vals d | Some vs \<Rightarrow> Some vs),
      meta = dict_update (meta d) (meta src)\<rparr>"

text \<open>
  Modelled from the spec: \<open>add_junk\<close> lives in \<open>misc.py\<close>, which is not among the sources.
  The spec has it stamp placeholder fields on the area; here it writes the entries \<open>junk\<close>
  into the dictionary it is given, in place, and returns that same dictionary. Which
  fields and which placeholder are not stated, so \<open>junk\<close> is a parameter.
\<close>

definition add_junk :: "(string \<times> pyval) list \<Rightarrow> area \<Rightarrow> area" where
  "add_junk junk d = d\<lparr>meta := dict_update (meta d) junk\<rparr>"

section \<open>The merge \<open>join_result_for_correct_time\<close>\<close>

text \<open>
  The loop \<open>for val in values\<close>. \<open>out\<close> is the list \<open>fin["areas"][key]["values"]\<close>, to
  which the loop appends.
\<close>

fun scan_values :: "tzinfo \<Rightarrow> int \<Rightarrow> int \<Rightarrow> price list \<Rightarrow> price list \<Rightarrow> error + price list" where
  "scan_values zone start_of_day end_of_day [] out = Inr out"
| "scan_values zone start_of_day end_of_day (val # rest) out =
     (let local = astimezone zone (p_start val);
          local_end = astimezone zone (p_end val)
      in if start_of_day \<le> local \<and> local \<le> end_of_day then
           (if p_value val \<in> INVALID_VALUES then Inl InvalidValueException
            else if local = local_end then scan_values zone start_of_day end_of_day rest out
            else scan_values zone start_of_day end_of_day rest (out @ [val]))
         else scan_values zone start_of_day end_of_day rest out)"

text \<open>
  The body of the loop over the areas of a page, for one \<open>key, value\<close>. It returns the
  area dictionary of the page as the body leaves it, and the new \<open>fin\<close> or the exception
  raised. \<open>value\<close> and \<open>day_["areas"][key]\<close> are one object, so the \<open>pop\<close> is seen
  through \<open>value\<close> by the \<open>update\<close> that follows.
\<close>

definition merge_area ::
  "(string \<Rightarrow> tzinfo) \<Rightarrow> (string \<times> pyval) list \<Rightarrow> end_date \<Rightarrow> string \<Rightarrow> area \<Rightarrow> fin
     \<Rightarrow> area \<times> (error + fin)" where
  "merge_area gettz junk dt key value0 fin =
     (case tzs key of
        None \<Rightarrow> (value0, Inr fin)
      | Some name \<Rightarrow>
          (let zone = gettz name;
               value1 = add_junk junk value0
           in case vals value1 of
                None \<Rightarrow> (value1, Inl KeyError)
              | Some values \<Rightarrow>
                  (let value2 = value1\<lparr>vals := None\<rparr>;
                       fin_areas = (case fin of None \<Rightarrow> [] | Some d \<Rightarrow> d);
                       cur0 = (case map_of fin_areas key of
                                 None \<Rightarrow> \<lparr>vals = None, meta = []\<rparr>
                               | Some a \<Rightarrow> a);
                       cur1 = area_update cur0 value2;
                       cur2 = (if vals cur1 = None then cur1\<lparr>vals := Some []\<rparr> else cur1)
                   in case dt of
                        Datetime utc \<Rightarrow>
                          (let start_of_day = replace_midnight (astimezone zone utc);
                               end_of_day = replace_last_microsecond (astimezone zone utc)
                           in case scan_values zone start_of_day end_of_day values
                                     (case vals cur2 of None \<Rightarrow> [] | Some out \<Rightarrow> out) of
                                Inl e \<Rightarrow> (value2, Inl e)
                              | Inr out \<Rightarrow>
                                  (value2,
                                   Inr (Some (AList.update key (cur2\<lparr>vals := Some out\<rparr>)
                                                fin_areas))))
                      | _ \<Rightarrow> (value2, Inl AttributeError))))"

text \<open>The loop over the items of \<open>day_["areas"]\<close>: it stops at the first exception.\<close>

fun merge_areas ::
  "(string \<Rightarrow> tzinfo) \<Rightarrow> (string \<times> pyval) list \<Rightarrow> end_date \<Rightarrow> (string \<times> area) list \<Rightarrow> fin
     \<Rightarrow> (string \<times> area) list \<times> (error + fin)" where
  "merge_areas gettz junk dt [] fin = ([], Inr fin)"
| "merge_areas gettz junk dt ((key, value0) # rest) fin =
     (case merge_area gettz junk dt key value0 fin of
        (value', Inl e) \<Rightarrow> ((key, value') # rest, Inl e)
      | (value', Inr fin') \<Rightarrow>
          (case merge_areas gettz junk dt rest fin' of
             (rest', r) \<Rightarrow> ((key, value') # rest', r)))"

text \<open>One page: \<open>day_.get("areas", {})\<close> is empty when the key is absent.\<close>

definition merge_day ::
  "(string \<Rightarrow> tzinfo) \<Rightarrow> (string \<times> pyval) list \<Rightarrow> end_date \<Rightarrow> page \<Rightarrow> fin
     \<Rightarrow> page \<times> (error + fin)" where
  "merge_day gettz junk dt day fin =
     (case areas day of
        None \<Rightarrow> (day, Inr fin)
      | Some items \<Rightarrow>
          (case merge_areas gettz junk dt items fin of
             (items', r) \<Rightarrow> (day\<lparr>areas := Some items'\<rparr>, r)))"

text \<open>The loop \<open>for day_ in results\<close>.\<close>

fun merge_days ::
  "(string \<Rightarrow> tzinfo) \<Rightarrow> (string \<times> pyval) list \<Rightarrow> end_date \<Rightarrow> page list \<Rightarrow> fin
     \<Rightarrow> page list \<times> (error + fin)" where
  "merge_days gettz junk dt [] fin = ([], Inr fin)"
| "merge_days gettz junk dt (day # rest) fin =
     (case merge_day gettz junk dt day fin of
        (day', Inl e) \<Rightarrow> (day' # rest, Inl e)
      | (day', Inr fin') \<Rightarrow>
          (case merge_days gettz junk dt rest fin' of
             (rest', r) \<Rightarrow> (day' # rest', r)))"

text \<open>
  The merge. The first component is the list \<open>results\<close> as the call leaves it (the merge
  writes into the pages it is given), the second what the caller receives: \<open>fin\<close>, or the
  exception.
\<close>

definition join_result_for_correct_time ::
  "(string \<Rightarrow> tzinfo) \<Rightarrow> (string \<times> pyval) list \<Rightarrow> page list \<Rightarrow> end_date
     \<Rightarrow> page list \<times> (error + fin)" where
  "join_result_for_correct_time gettz junk results dt = merge_days gettz junk dt results None"

section \<open>The public fetch API\<close>

text \<open>The page ids \<open>Prices.HOURLY\<close> and so on, of the library class \<open>Prices\<close>.\<close>

datatype data_type = HOURLY | DAILY | WEEKLY | MONTHLY | YEARLY

text \<open>
  The exceptions named in the \<open>backoff.on_exception\<close> decorator of \<open>fetch\<close>: a call that
  raises one of them is made again, any other exception reaches the caller.
\<close>

definition backoff_retries :: "error \<Rightarrow> bool" where
  "backoff_retries e = (e = ClientError \<or> e = KeyError)"

text \<open>The first exception of a list of outcomes, or all the results.\<close>

fun gather :: "(error + 'a) list \<Rightarrow> error + 'a list" where
  "gather [] = Inr []"
| "gather (Inl e # rs) = Inl e"
| "gather (Inr x # rs) = (case gather rs of Inl e \<Rightarrow> Inl e | Inr xs \<Rightarrow> Inr (x # xs))"

text \<open>
  One run of the body of \<open>fetch\<close>. The network and the page parser of the library are the
  parameter \<open>get_page\<close>: the parsed page for a page id, an end date and a list of areas,
  or the exception. \<open>now1\<close>, \<open>now2\<close>, \<open>now3\<close> are the three readings of
  \<open>datetime.now()\<close>. \<open>end_date\<close> goes to the merge as it came in.
\<close>

definition fetch ::
  "(data_type \<Rightarrow> int \<Rightarrow> string list \<Rightarrow> error + page) \<Rightarrow> (string \<Rightarrow> tzinfo)
     \<Rightarrow> (string \<times> pyval) list \<Rightarrow> int \<Rightarrow> int \<Rightarrow> int
     \<Rightarrow> data_type \<Rightarrow> end_date \<Rightarrow> string list option \<Rightarrow> error + fin" where
  "fetch get_page gettz junk now1 now2 now3 dtype end_date areas_arg =
     (let area_list = (case areas_arg of None \<Rightarrow> [] | Some l \<Rightarrow> l);
          yesterday = now1 - 86400000000;
          today = now2;
          tomorrow = now3 + 86400000000
      in case gather [get_page dtype yesterday area_list,
                      get_page dtype today area_list,
                      get_page dtype tomorrow area_list] of
           Inl e \<Rightarrow> Inl e
         | Inr raw \<Rightarrow> snd (join_result_for_correct_time gettz junk raw end_date))"

definition hourly ::
  "(data_type \<Rightarrow> int \<Rightarrow> string list \<Rightarrow> error + page) \<Rightarrow> (string \<Rightarrow> tzinfo)
     \<Rightarrow> (string \<times> pyval) list \<Rightarrow> int \<Rightarrow> int \<Rightarrow> int
     \<Rightarrow> end_date \<Rightarrow> string list option \<Rightarrow> error + fin" where
  "hourly get_page gettz junk now1 now2 now3 end_date areas_arg =
     fetch get_page gettz junk now1 now2 now3 HOURLY end_date
       (Some (case areas_arg of None \<Rightarrow> [] | Some l \<Rightarrow> l))"

definition daily ::
  "(data_type \<Rightarrow> int \<Rightarrow> string list \<Rightarrow> error + page) \<Rightarrow> (string \<Rightarrow> tzinfo)
     \<Rightarrow> (string \<times> pyval) list \<Rightarrow> int \<Rightarrow> int \<Rightarrow> int
     \<Rightarrow> end_date \<Rightarrow> string list option \<Rightarrow> error + fin" where
  "daily get_page gettz junk now1 now2 now3 end_date areas_arg =
     fetch get_page gettz junk now1 now2 now3 DAILY end_date
       (Some (case areas_arg of None \<Rightarrow> [] | Some l \<Rightarrow> l))"

definition weekly ::
  "(data_type \<Rightarrow> int \<Rightarrow> string list \<Rightarrow> error + page) \<Rightarrow> (string \<Rightarrow> tzinfo)
     \<Rightarrow> (string \<times> pyval) list \<Rightarrow> int \<Rightarrow> int \<Rightarrow> int
     \<Rightarrow> end_date \<Rightarrow> string list option \<Rightarrow> error + fin" where
  "weekly get_page gettz junk now1 now2 now3 end_date areas_arg =
     fetch get_page gettz junk now1 now2 now3 WEEKLY end_date
       (Some (case areas_arg of None \<Rightarrow> [] | Some l \<Rightarrow> l))"

definition monthly ::
  "(data_type \<Rightarrow> int \<Rightarrow> string list \<Rightarrow> error + page) \<Rightarrow> (string \<Rightarrow> tzinfo)
     \<Rightarrow> (string \<times> pyval) list \<Rightarrow> int \<Rightarrow> int \<Rightarrow> int
     \<Rightarrow> end_date \<Rightarrow> string list option \<Rightarrow> error + fin" where
  "monthly get_page gettz junk now1 now2 now3 end_date areas_arg =
     fetch get_page gettz junk now1 now2 now3 MONTHLY end_date
       (Some (case areas_arg of None \<Rightarrow> [] | Some l \<Rightarrow> l))"

definition yearly ::
  "(data_type \<Rightarrow> int \<Rightarrow> string list \<Rightarrow> error + page) \<Rightarrow> (string \<Rightarrow> tzinfo)
     \<Rightarrow> (string \<times> pyval) list \<Rightarrow> int \<Rightarrow> int \<Rightarrow> int
     \<Rightarrow> end_date \<Rightarrow> string list option \<Rightarrow> error + fin" where
  "yearly get_page gettz junk now1 now2 now3 end_date areas_arg =
     fetch get_page gettz junk now1 now2 now3 YEARLY end_date
       (Some (case areas_arg of None \<Rightarrow> [] | Some l \<Rightarrow> l))"

section \<open>Reading a merged result and a page\<close>

text \<open>\<open>day_.get("areas", {}).get(key)\<close>: the area of a page under an area code.\<close>

definition page_area :: "page \<Rightarrow> string \<Rightarrow> area option" where
  "page_area day key = (case areas day of None \<Rightarrow> None | Some items \<Rightarrow> map_of items key)"

text \<open>The records a page holds for an area code, empty when it holds none.\<close>

definition page_values :: "page \<Rightarrow> string \<Rightarrow> price list" where
  "page_values day key =
     (case page_area day key of
        None \<Rightarrow> []
      | Some a \<Rightarrow> (case vals a of None \<Rightarrow> [] | Some vs \<Rightarrow> vs))"

text \<open>The metadata a page contributes for an area code: its entries after the stamping.\<close>

definition page_meta :: "(string \<times> pyval) list \<Rightarrow> page \<Rightarrow> string \<Rightarrow> string \<rightharpoonup> pyval" where
  "page_meta junk day key =
     (case page_area day key of
        None \<Rightarrow> Map.empty
      | Some a \<Rightarrow> map_of (meta (add_junk junk a)))"

text \<open>\<open>fin["areas"].get(key)\<close>, and the values list and the metadata found there.\<close>

definition fin_area :: "fin \<Rightarrow> string \<Rightarrow> area option" where
  "fin_area fin key = (case fin of None \<Rightarrow> None | Some d \<Rightarrow> map_of d key)"

definition fin_values :: "fin \<Rightarrow> string \<Rightarrow> price list" where
  "fin_values fin key =
     (case fin_area fin key of
        None \<Rightarrow> []
      | Some a \<Rightarrow> (case vals a of None \<Rightarrow> [] | Some vs \<Rightarrow> vs))"

definition fin_meta :: "fin \<Rightarrow> string \<Rightarrow> string \<rightharpoonup> pyval" where
  "fin_meta fin key = (case fin_area fin key of None \<Rightarrow> Map.empty | Some a \<Rightarrow> map_of (meta a))"

text \<open>
  A page as the parser builds it: dictionaries have each key once, and every area has
  its list under \<open>values\<close>.
\<close>

definition parsed_page :: "page \<Rightarrow> bool" where
  "parsed_page day =
     (case areas day of
        None \<Rightarrow> True
      | Some items \<Rightarrow>
          distinct (map fst items)
          \<and> list_all (\<lambda>(k, a). vals a \<noteq> None \<and> distinct (map fst (meta a))) items)"

text \<open>
  The test of the merge on one record, for the zone and the reference instant: the local
  start lies in the local day of the reference, and whether the record is kept.
\<close>

definition in_local_day :: "tzinfo \<Rightarrow> int \<Rightarrow> price \<Rightarrow> bool" where
  "in_local_day zone utc val =
     (replace_midnight (astimezone zone utc) \<le> astimezone zone (p_start val)
      \<and> astimezone zone (p_start val) \<le> replace_last_microsecond (astimezone zone utc))"

definition qualifies :: "tzinfo \<Rightarrow> int \<Rightarrow> price \<Rightarrow> bool" where
  "qualifies zone utc val =
     (in_local_day zone utc val
      \<and> astimezone zone (p_start val) \<noteq> astimezone zone (p_end val))"

text \<open>What the merge leaves of a page it has gone through.\<close>

definition merged_item :: "(string \<times> pyval) list \<Rightarrow> string \<times> area \<Rightarrow> string \<times> area" where
  "merged_item junk item =
     (case item of (k, a) \<Rightarrow>
        (k, if tzs k = None then a else (add_junk junk a)\<lparr>vals := None\<rparr>))"

definition merged_page :: "(string \<times> pyval) list \<Rightarrow> page \<Rightarrow> page" where
  "merged_page junk day = day\<lparr>areas := map_option (map (merged_item junk)) (areas day)\<rparr>"

text \<open>A page without the area of a given code.\<close>

definition remove_area :: "string \<Rightarrow> page \<Rightarrow> page" where
  "remove_area key day = day\<lparr>areas := map_option (filter (\<lambda>item. fst item \<noteq> key)) (areas day)\<rparr>"

section \<open>Example data: Stockholm on 31 October 2021\<close>

text \<open>
  Summer time of 2021 in the European Union ran from 28 March 01:00 UTC to 31 October
  01:00 UTC. The example zone database has the Baltic and Finnish zones two hours and
  the others one hour ahead of UTC in winter.
\<close>

definition eu_summer_2021 :: "int \<Rightarrow> bool" where
  "eu_summer_2021 t = (1616893200000000 \<le> t \<and> t < 1635642000000000)"

definition example_gettz :: "string \<Rightarrow> tzinfo" where
  "example_gettz name t =
     (if name \<in> {''Europe/Helsinki'', ''Europe/Tallinn'', ''Europe/Vilnius'', ''Europe/Riga''}
      then 7200000000 else 3600000000)
     + (if eu_summer_2021 t then 3600000000 else 0)"

text \<open>The record of the hour that starts \<open>h\<close> hours after 2021-10-31 00:00 UTC.\<close>

definition hour_rec :: "int \<Rightarrow> pyval \<Rightarrow> price" where
  "hour_rec h v =
     \<lparr>p_start = 1635638400000000 + h * 3600000000,
      p_end = 1635638400000000 + (h + 1) * 3600000000,
      p_value = v\<rparr>"

text \<open>2021-10-31 12:00 UTC.\<close>

definition example_utc :: int where
  "example_utc = 1635681600000000"

definition example_junk :: "(string \<times> pyval) list" where
  "example_junk = [(''Peak'', PyFloat PosInf)]"

definition example_page1 :: page where
  "example_page1 =
     \<lparr>areas = Some
        [(''SE1'', \<lparr>vals = Some [hour_rec (- 3) (PyFloat (Finite 40)),
                                  hour_rec (- 2) (PyFloat (Finite 41))],
                    meta = [(''Average'', PyFloat (Finite 40.5)),
                            (''Peak'', PyFloat (Finite 41))]\<rparr>),
         (''PL'', \<lparr>vals = Some [hour_rec 3 PyNone], meta = []\<rparr>)]\<rparr>"

definition example_page2 :: page where
  "example_page2 =
     \<lparr>areas = Some
        [(''SE1'', \<lparr>vals = Some [hour_rec (- 1) (PyFloat (Finite 42)),
                                  hour_rec 0 (PyFloat (Finite 43)),
                                  hour_rec 1 (PyFloat (Finite 44))],
                    meta = [(''Average'', PyFloat (Finite 43)),
                            (''Peak'', PyFloat (Finite 44))]\<rparr>)]\<rparr>"

definition example_page3 :: page where
  "example_page3 =
     \<lparr>areas = Some
        [(''SE1'', \<lparr>vals = Some [hour_rec 22 (PyFloat (Finite 45)),
                                  hour_rec 23 (PyFloat (Finite 46))],
                    meta = [(''Average'', PyFloat (Finite 45.5)),
                            (''Peak'', PyFloat (Finite 46))]\<rparr>)]\<rparr>"

text \<open>A page whose second record carries no price.\<close>

definition example_bad_page :: page where
  "example_bad_page =
     \<lparr>areas = Some
        [(''SE1'', \<lparr>vals = Some [hour_rec 4 (PyFloat (Finite 47)),
                                  hour_rec 5 PyNone],
                    meta = [(''Average'', PyFloat (Finite 47))]\<rparr>)]\<rparr>"

text \<open>
  An example upstream: the page of the day before 31 October, of that day, and of the
  day after, by the end date asked for (on the wall clock of the machine).
\<close>

definition example_get_page :: "data_type \<Rightarrow> int \<Rightarrow> string list \<Rightarrow> error + page" where
  "example_get_page dtype d area_list =
     (if d < 1635638400000000 then Inr example_page1
      else if d < 1635724800000000 then Inr example_page2
      else Inr example_page3)"

text \<open>What the merge of the three example pages returns for 2021-10-31 12:00 UTC.\<close>

definition example_merged_values :: "price list" where
  "example_merged_values =
     [hour_rec (- 2) (PyFloat (Finite 41)),
      hour_rec (- 1) (PyFloat (Finite 42)),
      hour_rec 1 (PyFloat (Finite 44)),
      hour_rec 22 (PyFloat (Finite 45))]"

definition example_merged_area :: area where
  "example_merged_area =
     \<lparr>vals = Some example_merged_values,
      meta = [(''Average'', PyFloat (Finite 45.5)), (''Peak'', PyFloat PosInf)]\<rparr>"

definition example_merged :: fin where
  "example_merged = Some [(''SE1'', example_merged_area)]"

text \<open>
  A third page that overlaps the second example page in the hour from 01:00 UTC, and
  what the merge of the first and second example page and this one returns.
\<close>

definition example_overlap_page :: page where
  "example_overlap_page =
     \<lparr>areas = Some
        [(''SE1'', \<lparr>vals = Some [hour_rec 1 (PyFloat (Finite 44)),
                                  hour_rec 2 (PyFloat (Finite 44.5))],
                    meta = [(''Average'', PyFloat (Finite 44.25)),
                            (''Peak'', PyFloat (Finite 44.5))]\<rparr>)]\<rparr>"

definition example_overlap_merged :: fin where
  "example_overlap_merged =
     Some [(''SE1'',
            \<lparr>vals = Some [hour_rec (- 2) (PyFloat (Finite 41)),
                          hour_rec (- 1) (PyFloat (Finite 42)),
                          hour_rec 1 (PyFloat (Finite 44)),
                          hour_rec 1 (PyFloat (Finite 44)),
                          hour_rec 2 (PyFloat (Finite 44.5))],
             meta = [(''Average'', PyFloat (Finite 44.25)), (''Peak'', PyFloat PosInf)]\<rparr>)]"

text \<open>What the merge of the three example pages returns for 2021-11-01 12:00 UTC.\<close>

definition example_tomorrow :: fin where
  "example_tomorrow =
     Some [(''SE1'',
            \<lparr>vals = Some [hour_rec 23 (PyFloat (Finite 46))],
             meta = [(''Average'', PyFloat (Finite 45.5)), (''Peak'', PyFloat PosInf)]\<rparr>)]"

section \<open>The loop over the records\<close>

lemma scan_values_eq:
  "scan_values zone (replace_midnight (astimezone zone utc))
      (replace_last_microsecond (astimezone zone utc)) vs out =
   (if \<exists>v\<in>set vs. in_local_day zone utc v \<and> p_value v \<in> INVALID_VALUES
    then Inl InvalidValueException
    else Inr (out @ filter (qualifies zone utc) vs))"
  by (induction vs arbitrary: out) (auto simp: in_local_day_def qualifies_def Let_def)

lemma dict_update_map_of:
  "map_of (dict_update d src) = map_of d ++ map_of (rev src)"
proof (induction src arbitrary: d)
  case Nil
  show ?case by (simp add: dict_update_def)
next
  case (Cons x src)
  obtain k v where x: "x = (k, v)" by (cases x)
  have 1: "dict_update d (x # src) = dict_update (AList.update k v d) src"
    by (simp add: dict_update_def x)
  have 2: "map_of (dict_update (AList.update k v d) src)
             = map_of (AList.update k v d) ++ map_of (rev src)"
    by (rule Cons.IH)
  have 3: "map_of (AList.update k v d) = (map_of d)(k \<mapsto> v)"
    by (rule AList.update_conv')
  have 4: "(map_of d)(k \<mapsto> v) ++ map_of (rev src) = map_of d ++ map_of (rev (x # src))"
    by (rule ext) (simp add: x map_add_def split: option.splits)
  show ?case unfolding 1 2 3 4 ..
qed

lemma dict_update_distinct:
  "distinct (map fst d) \<Longrightarrow> distinct (map fst (dict_update d src))"
  unfolding dict_update_def
  by (induction src arbitrary: d) (auto simp: AList.distinct_update)

lemma merge_area_unknown:
  "tzs key = None \<Longrightarrow> merge_area gettz junk dt key a fin = (a, Inr fin)"
  by (simp add: merge_area_def)

lemma merge_area_known:
  assumes "tzs key = Some name" and "vals a = Some vs"
  shows "merge_area gettz junk (Datetime utc) key a fin =
    ((add_junk junk a)\<lparr>vals := None\<rparr>,
     if \<exists>v\<in>set vs. in_local_day (gettz name) utc v \<and> p_value v \<in> INVALID_VALUES
     then Inl InvalidValueException
     else Inr (Some (AList.update key
            \<lparr>vals = Some (fin_values fin key @ filter (qualifies (gettz name) utc) vs),
             meta = dict_update (case fin_area fin key of None \<Rightarrow> [] | Some c \<Rightarrow> meta c)
                      (meta (add_junk junk a))\<rparr>
            (case fin of None \<Rightarrow> [] | Some d \<Rightarrow> d))))"
  using assms
  by (auto simp: merge_area_def Let_def add_junk_def area_update_def scan_values_eq
      fin_values_def fin_area_def split: option.splits)


lemma merge_area_novals:
  "tzs key = Some name \<Longrightarrow> vals a = None \<Longrightarrow>
   merge_area gettz junk dt key a fin = (add_junk junk a, Inl KeyError)"
  by (simp add: merge_area_def Let_def add_junk_def)

lemma fin_area_update:
  "fin_area (Some (AList.update key c d)) k = (if k = key then Some c else map_of d k)"
  by (simp add: fin_area_def AList.update_conv')

lemma merge_area_step:
  assumes "merge_area gettz junk (Datetime utc) key a fin = (a', Inr fin')"
  shows "fin_area fin' k \<noteq> None \<longleftrightarrow> fin_area fin k \<noteq> None \<or> (k = key \<and> tzs key \<noteq> None)"
    and "fin_values fin' k = fin_values fin k @
           (if k = key then
              (case tzs key of None \<Rightarrow> []
               | Some name \<Rightarrow> filter (qualifies (gettz name) utc)
                                (case vals a of None \<Rightarrow> [] | Some vs \<Rightarrow> vs))
            else [])"
    and "fin_meta fin' k =
           (if k = key \<and> tzs key \<noteq> None
            then fin_meta fin k ++ map_of (rev (meta (add_junk junk a)))
            else fin_meta fin k)"
proof -
  show "fin_area fin' k \<noteq> None \<longleftrightarrow> fin_area fin k \<noteq> None \<or> (k = key \<and> tzs key \<noteq> None)"
  proof (cases "tzs key")
    case None
    with assms show ?thesis by (simp add: merge_area_unknown)
  next
    case (Some name)
    show ?thesis
    proof (cases "vals a")
      case None
      with Some assms show ?thesis by (simp add: merge_area_novals)
    next
      case (Some vs)
      with \<open>tzs key = Some name\<close> assms show ?thesis
        by (auto simp: merge_area_known fin_area_update split: if_splits)
          (auto simp: fin_area_def split: option.splits)
    qed
  qed
  show "fin_values fin' k = fin_values fin k @
           (if k = key then
              (case tzs key of None \<Rightarrow> []
               | Some name \<Rightarrow> filter (qualifies (gettz name) utc)
                                (case vals a of None \<Rightarrow> [] | Some vs \<Rightarrow> vs))
            else [])"
  proof (cases "tzs key")
    case None
    with assms show ?thesis by (simp add: merge_area_unknown)
  next
    case (Some name)
    show ?thesis
    proof (cases "vals a")
      case None
      with Some assms show ?thesis by (simp add: merge_area_novals)
    next
      case (Some vs)
      with \<open>tzs key = Some name\<close> assms
      have f: "fin' = Some (AList.update key
            \<lparr>vals = Some (fin_values fin key @ filter (qualifies (gettz name) utc) vs),
             meta = dict_update (case fin_area fin key of None \<Rightarrow> [] | Some c \<Rightarrow> meta c)
                      (meta (add_junk junk a))\<rparr>
            (case fin of None \<Rightarrow> [] | Some d \<Rightarrow> d))"
        by (auto simp: merge_area_known split: if_splits)
      show ?thesis
        unfolding f using Some \<open>tzs key = Some name\<close>
        by (auto simp: fin_values_def fin_area_update) (auto simp: fin_area_def split: option.splits)
    qed
  qed
  show "fin_meta fin' k =
           (if k = key \<and> tzs key \<noteq> None
            then fin_meta fin k ++ map_of (rev (meta (add_junk junk a)))
            else fin_meta fin k)"
  proof (cases "tzs key")
    case None
    with assms show ?thesis by (simp add: merge_area_unknown)
  next
    case (Some name)
    show ?thesis
    proof (cases "vals a")
      case None
      with Some assms show ?thesis by (simp add: merge_area_novals)
    next
      case (Some vs)
      with \<open>tzs key = Some name\<close> assms
      have f: "fin' = Some (AList.update key
            \<lparr>vals = Some (fin_values fin key @ filter (qualifies (gettz name) utc) vs),
             meta = dict_update (case fin_area fin key of None \<Rightarrow> [] | Some c \<Rightarrow> meta c)
                      (meta (add_junk junk a))\<rparr>
            (case fin of None \<Rightarrow> [] | Some d \<Rightarrow> d))"
        by (auto simp: merge_area_known split: if_splits)
      show ?thesis
        unfolding f using Some \<open>tzs key = Some name\<close>
        by (auto simp: fin_meta_def fin_area_update dict_update_map_of)
           (auto simp: fin_area_def split: option.splits)
    qed
  qed
qed

section \<open>The loops over areas and pages\<close>

lemma map_of_rev_distinct:
  "distinct (map fst l) \<Longrightarrow> map_of (rev l) = map_of l"
  by (subst map_of_inject_set) (simp_all add: rev_map [symmetric])

lemma merge_areas_Cons_Inr:
  "merge_areas gettz junk dt ((key, a) # rest) fin = (items', Inr fin') \<Longrightarrow>
   \<exists>a' fin1 rest'. merge_area gettz junk dt key a fin = (a', Inr fin1)
      \<and> merge_areas gettz junk dt rest fin1 = (rest', Inr fin')
      \<and> items' = (key, a') # rest'"
  by (auto split: prod.splits sum.splits)

lemma merge_day_Inr:
  "merge_day gettz junk dt day fin = (day', Inr fin') \<Longrightarrow>
   (areas day = None \<and> fin' = fin \<and> day' = day)
   \<or> (\<exists>items items'. areas day = Some items
        \<and> merge_areas gettz junk dt items fin = (items', Inr fin')
        \<and> day' = day\<lparr>areas := Some items'\<rparr>)"
  by (auto simp: merge_day_def split: option.splits prod.splits)

lemma merge_days_Cons_Inr:
  "merge_days gettz junk dt (day # rest) fin = (days', Inr fin') \<Longrightarrow>
   \<exists>day' fin1 rest'. merge_day gettz junk dt day fin = (day', Inr fin1)
      \<and> merge_days gettz junk dt rest fin1 = (rest', Inr fin')
      \<and> days' = day' # rest'"
  by (auto split: prod.splits sum.splits)

lemma set_append_qualifies:
  assumes e: "(xs :: price list) = ys @
           (if k = key then
              (case tzs key of None \<Rightarrow> []
               | Some name \<Rightarrow> filter (qualifies (gettz name) utc) zs)
            else [])" 
  shows "set xs \<subseteq> set ys \<union> {v. \<exists>name. tzs k = Some name \<and> qualifies (gettz name) utc v}"
proof (cases "k = key")
  case True
  show ?thesis
  proof (cases "tzs key")
    case None
    with True e have "xs = ys" by simp
    then show ?thesis by blast
  next
    case (Some name)
    with True e have "xs = ys @ filter (qualifies (gettz name) utc) zs" by simp
    moreover have "tzs k = Some name" using True Some by simp
    ultimately show ?thesis by auto
  qed
next
  case False
  with e have "xs = ys" by simp
  then show ?thesis by blast
qed

lemma merge_areas_sub:
  "merge_areas gettz junk (Datetime utc) items fin = (items', Inr fin') \<Longrightarrow>
   (fin_area fin' k \<noteq> None \<longrightarrow> fin_area fin k \<noteq> None \<or> tzs k \<noteq> None) \<and>
   set (fin_values fin' k) \<subseteq>
     set (fin_values fin k) \<union> {v. \<exists>name. tzs k = Some name \<and> qualifies (gettz name) utc v}"
proof (induction items arbitrary: fin items')
  case Nil
  then show ?case by simp
next
  case (Cons item items)
  obtain key a where item: "item = (key, a)" by (cases item)
  from merge_areas_Cons_Inr [OF Cons.prems [unfolded item]] obtain a' fin1 rest' where
    1: "merge_area gettz junk (Datetime utc) key a fin = (a', Inr fin1)" and
    2: "merge_areas gettz junk (Datetime utc) items fin1 = (rest', Inr fin')"
    by blast
  have a: "fin_area fin1 k \<noteq> None \<longrightarrow> fin_area fin k \<noteq> None \<or> tzs k \<noteq> None"
    using merge_area_step(1) [OF 1, of k] by auto
  have b: "set (fin_values fin1 k) \<subseteq>
     set (fin_values fin k) \<union> {v. \<exists>name. tzs k = Some name \<and> qualifies (gettz name) utc v}"
    by (rule set_append_qualifies [OF merge_area_step(2) [OF 1]])
  from Cons.IH [OF 2] a b show ?case by blast
qed

lemma merge_day_sub:
  assumes "merge_day gettz junk (Datetime utc) day fin = (day', Inr fin')"
  shows "(fin_area fin' k \<noteq> None \<longrightarrow> fin_area fin k \<noteq> None \<or> tzs k \<noteq> None) \<and>
   set (fin_values fin' k) \<subseteq>
     set (fin_values fin k) \<union> {v. \<exists>name. tzs k = Some name \<and> qualifies (gettz name) utc v}"
proof -
  from merge_day_Inr [OF assms] show ?thesis
  proof
    assume "areas day = None \<and> fin' = fin \<and> day' = day"
    then show ?thesis by auto
  next
    assume "\<exists>items items'. areas day = Some items
        \<and> merge_areas gettz junk (Datetime utc) items fin = (items', Inr fin')
        \<and> day' = day\<lparr>areas := Some items'\<rparr>"
    then obtain items items' where
      "merge_areas gettz junk (Datetime utc) items fin = (items', Inr fin')" by blast
    then show ?thesis by (rule merge_areas_sub)
  qed
qed

lemma merge_days_sub:
  "merge_days gettz junk (Datetime utc) results fin = (results', Inr fin') \<Longrightarrow>
   (fin_area fin' k \<noteq> None \<longrightarrow> fin_area fin k \<noteq> None \<or> tzs k \<noteq> None) \<and>
   set (fin_values fin' k) \<subseteq>
     set (fin_values fin k) \<union> {v. \<exists>name. tzs k = Some name \<and> qualifies (gettz name) utc v}"
proof (induction results arbitrary: fin results')
  case Nil
  then show ?case by simp
next
  case (Cons day rest)
  from merge_days_Cons_Inr [OF Cons.prems] obtain day' fin1 rest' where
    1: "merge_day gettz junk (Datetime utc) day fin = (day', Inr fin1)" and
    2: "merge_days gettz junk (Datetime utc) rest fin1 = (rest', Inr fin')"
    by blast
  from Cons.IH [OF 2] merge_day_sub [OF 1, of k] show ?case by blast
qed

lemma merge_areas_exact:
  "merge_areas gettz junk (Datetime utc) items fin = (items', Inr fin') \<Longrightarrow>
   distinct (map fst items) \<Longrightarrow> tzs k = Some name \<Longrightarrow>
   fin_values fin' k = fin_values fin k @ filter (qualifies (gettz name) utc)
        (case map_of items k of None \<Rightarrow> [] | Some a \<Rightarrow> (case vals a of None \<Rightarrow> [] | Some vs \<Rightarrow> vs))
   \<and> fin_meta fin' k = fin_meta fin k ++
        (case map_of items k of None \<Rightarrow> Map.empty
         | Some a \<Rightarrow> map_of (rev (meta (add_junk junk a))))"
proof (induction items arbitrary: fin items')
  case Nil
  then show ?case by simp
next
  case (Cons item items)
  obtain key a where item: "item = (key, a)" by (cases item)
  from merge_areas_Cons_Inr [OF Cons.prems(1) [unfolded item]] obtain a' fin1 rest' where
    1: "merge_area gettz junk (Datetime utc) key a fin = (a', Inr fin1)" and
    2: "merge_areas gettz junk (Datetime utc) items fin1 = (rest', Inr fin')"
    by blast
  from Cons.prems(2) have dist: "distinct (map fst items)" and fresh: "key \<notin> fst ` set items"
    by (simp_all add: item)
  note s = merge_area_step(2,3) [OF 1, of k]
  note ih = Cons.IH [OF 2 dist Cons.prems(3)]
  show ?case
  proof (cases "k = key")
    case True
    with fresh have "map_of items k = None" by (simp add: map_of_eq_None_iff)
    with True ih s Cons.prems(3) show ?thesis by (simp add: item)
  next
    case False
    with ih s show ?thesis by (simp add: item)
  qed
qed

section \<open>Pages as the parser builds them\<close>

lemma parsed_page_item:
  assumes "parsed_page day" and "areas day = Some items"
  shows "distinct (map fst items)"
    and "map_of items k = Some a \<Longrightarrow> vals a \<noteq> None \<and> distinct (map fst (meta a))"
proof -
  from assms show "distinct (map fst items)" by (simp add: parsed_page_def)
  assume "map_of items k = Some a"
  then have "(k, a) \<in> set items" by (rule map_of_SomeD)
  with assms show "vals a \<noteq> None \<and> distinct (map fst (meta a))"
    by (auto simp: parsed_page_def list_all_iff)
qed

lemma add_junk_distinct:
  "distinct (map fst (meta a)) \<Longrightarrow> distinct (map fst (meta (add_junk junk a)))"
  by (simp add: add_junk_def dict_update_distinct)

lemma merge_day_exact:
  assumes m: "merge_day gettz junk (Datetime utc) day fin = (day', Inr fin')"
    and p: "parsed_page day" and k: "tzs k = Some name"
  shows "fin_values fin' k = fin_values fin k @ filter (qualifies (gettz name) utc) (page_values day k)"
    and "fin_meta fin' k = fin_meta fin k ++ page_meta junk day k"
proof -
  have "fin_values fin' k = fin_values fin k @ filter (qualifies (gettz name) utc) (page_values day k)
    \<and> fin_meta fin' k = fin_meta fin k ++ page_meta junk day k"
    using merge_day_Inr [OF m]
  proof
    assume "areas day = None \<and> fin' = fin \<and> day' = day"
    then show ?thesis by (simp add: page_values_def page_meta_def page_area_def)
  next
    assume "\<exists>items items'. areas day = Some items
        \<and> merge_areas gettz junk (Datetime utc) items fin = (items', Inr fin')
        \<and> day' = day\<lparr>areas := Some items'\<rparr>"
    then obtain items items' where i: "areas day = Some items"
      and ma: "merge_areas gettz junk (Datetime utc) items fin = (items', Inr fin')" by blast
    note e = merge_areas_exact [OF ma parsed_page_item(1) [OF p i] k]
    have v: "page_values day k =
      (case map_of items k of None \<Rightarrow> [] | Some a \<Rightarrow> (case vals a of None \<Rightarrow> [] | Some vs \<Rightarrow> vs))"
      by (simp add: page_values_def page_area_def i)
    have mt: "page_meta junk day k =
      (case map_of items k of None \<Rightarrow> Map.empty | Some a \<Rightarrow> map_of (rev (meta (add_junk junk a))))"
    proof (cases "map_of items k")
      case None
      then show ?thesis by (simp add: page_meta_def page_area_def i)
    next
      case (Some a)
      from parsed_page_item(2) [OF p i Some] have "distinct (map fst (meta (add_junk junk a)))"
        by (simp add: add_junk_distinct)
      then show ?thesis by (simp add: page_meta_def page_area_def i Some map_of_rev_distinct)
    qed
    from e show ?thesis unfolding v mt .
  qed
  then show "fin_values fin' k = fin_values fin k @ filter (qualifies (gettz name) utc) (page_values day k)"
    and "fin_meta fin' k = fin_meta fin k ++ page_meta junk day k" by simp_all
qed

lemma merge_days_exact:
  "merge_days gettz junk (Datetime utc) results fin = (results', Inr fin') \<Longrightarrow>
   \<forall>day\<in>set results. parsed_page day \<Longrightarrow> tzs k = Some name \<Longrightarrow>
   fin_values fin' k = fin_values fin k @ filter (qualifies (gettz name) utc)
        (concat (map (\<lambda>day. page_values day k) results))
   \<and> fin_meta fin' k = fin_meta fin k ++ foldr (\<lambda>day m. page_meta junk day k ++ m) results Map.empty"
proof (induction results arbitrary: fin results')
  case Nil
  then show ?case by simp
next
  case (Cons day rest)
  from merge_days_Cons_Inr [OF Cons.prems(1)] obtain day' fin1 rest' where
    1: "merge_day gettz junk (Datetime utc) day fin = (day', Inr fin1)" and
    2: "merge_days gettz junk (Datetime utc) rest fin1 = (rest', Inr fin')"
    by blast
  from Cons.prems(2) have pd: "parsed_page day" and pr: "\<forall>day\<in>set rest. parsed_page day"
    by simp_all
  note d = merge_day_exact [OF 1 pd Cons.prems(3)]
  note ih = Cons.IH [OF 2 pr Cons.prems(3)]
  show ?case by (simp add: ih d)
qed

lemma merge_area_not_datetime:
  assumes "\<forall>utc. dt \<noteq> Datetime utc"
    and "merge_area gettz junk dt key a fin = (a', Inr fin')"
  shows "fin' = fin"
  using assms
  by (cases dt) (auto simp: merge_area_def Let_def split: option.splits)

lemma merge_areas_not_datetime:
  "\<forall>utc. dt \<noteq> Datetime utc \<Longrightarrow>
   merge_areas gettz junk dt items fin = (items', Inr fin') \<Longrightarrow> fin' = fin"
proof (induction items arbitrary: fin items')
  case Nil
  then show ?case by simp
next
  case (Cons item items)
  obtain key a where item: "item = (key, a)" by (cases item)
  from merge_areas_Cons_Inr [OF Cons.prems(2) [unfolded item]] obtain a' fin1 rest' where
    1: "merge_area gettz junk dt key a fin = (a', Inr fin1)" and
    2: "merge_areas gettz junk dt items fin1 = (rest', Inr fin')"
    by blast
  from merge_area_not_datetime [OF Cons.prems(1) 1] Cons.IH [OF Cons.prems(1) 2]
  show ?case by simp
qed

lemma merge_days_not_datetime:
  "\<forall>utc. dt \<noteq> Datetime utc \<Longrightarrow>
   merge_days gettz junk dt results fin = (results', Inr fin') \<Longrightarrow> fin' = fin"
proof (induction results arbitrary: fin results')
  case Nil
  then show ?case by simp
next
  case (Cons day rest)
  from merge_days_Cons_Inr [OF Cons.prems(2)] obtain day' fin1 rest' where
    1: "merge_day gettz junk dt day fin = (day', Inr fin1)" and
    2: "merge_days gettz junk dt rest fin1 = (rest', Inr fin')"
    by blast
  from merge_day_Inr [OF 1] merge_areas_not_datetime [OF Cons.prems(1)]
  have "fin1 = fin" by blast
  with Cons.IH [OF Cons.prems(1) 2] show ?case by simp
qed

section \<open>What the merge leaves of its input\<close>

lemma merge_areas_Cons_Inl:
  "merge_areas gettz junk dt ((key, a) # rest) fin = (items', Inl e) \<Longrightarrow>
   (\<exists>a'. merge_area gettz junk dt key a fin = (a', Inl e) \<and> items' = (key, a') # rest)
   \<or> (\<exists>a' fin1 rest'. merge_area gettz junk dt key a fin = (a', Inr fin1)
        \<and> merge_areas gettz junk dt rest fin1 = (rest', Inl e)
        \<and> items' = (key, a') # rest')"
  by (auto split: prod.splits sum.splits)

lemma merge_day_Inl:
  "merge_day gettz junk dt day fin = (day', Inl e) \<Longrightarrow>
   \<exists>items items'. areas day = Some items
        \<and> merge_areas gettz junk dt items fin = (items', Inl e)
        \<and> day' = day\<lparr>areas := Some items'\<rparr>"
  by (auto simp: merge_day_def split: option.splits prod.splits)

lemma merge_days_Cons_Inl:
  "merge_days gettz junk dt (day # rest) fin = (days', Inl e) \<Longrightarrow>
   (\<exists>day'. merge_day gettz junk dt day fin = (day', Inl e) \<and> days' = day' # rest)
   \<or> (\<exists>day' fin1 rest'. merge_day gettz junk dt day fin = (day', Inr fin1)
        \<and> merge_days gettz junk dt rest fin1 = (rest', Inl e)
        \<and> days' = day' # rest')"
  by (auto split: prod.splits sum.splits)

lemma merge_area_fst:
  "merge_area gettz junk dt key a fin = (a', r) \<Longrightarrow>
   a' = (if tzs key = None then a else (add_junk junk a)\<lparr>vals := None\<rparr>)"
  by (cases dt) (auto simp: merge_area_def Let_def add_junk_def split: option.splits sum.splits)

lemma merge_area_Inl:
  "merge_area gettz junk dt key a fin = (a', Inl e) \<Longrightarrow> tzs key \<noteq> None"
  by (cases "tzs key") (simp_all add: merge_area_unknown)

lemma merge_area_Inl_datetime:
  assumes "merge_area gettz junk (Datetime utc) key a fin = (a', Inl e)"
  shows "(e = InvalidValueException \<and> vals a \<noteq> None) \<or> (e = KeyError \<and> vals a = None)"
proof -
  from merge_area_Inl [OF assms] obtain name where n: "tzs key = Some name" by auto
  show ?thesis
  proof (cases "vals a")
    case None
    with n assms show ?thesis by (simp add: merge_area_novals)
  next
    case (Some vs)
    with n assms show ?thesis by (auto simp: merge_area_known split: if_splits)
  qed
qed

lemma merge_areas_fst_Inr:
  "merge_areas gettz junk dt items fin = (items', Inr fin') \<Longrightarrow>
   items' = map (merged_item junk) items"
proof (induction items arbitrary: fin items')
  case Nil
  then show ?case by simp
next
  case (Cons item items)
  obtain key a where item: "item = (key, a)" by (cases item)
  from merge_areas_Cons_Inr [OF Cons.prems [unfolded item]] obtain a' fin1 rest' where
    1: "merge_area gettz junk dt key a fin = (a', Inr fin1)" and
    2: "merge_areas gettz junk dt items fin1 = (rest', Inr fin')" and
    3: "items' = (key, a') # rest'"
    by blast
  from merge_area_fst [OF 1] Cons.IH [OF 2] 3 show ?case
    by (simp add: item merged_item_def)
qed

lemma merge_days_fst_Inr:
  "merge_days gettz junk dt results fin = (results', Inr fin') \<Longrightarrow>
   results' = map (merged_page junk) results"
proof (induction results arbitrary: fin results')
  case Nil
  then show ?case by simp
next
  case (Cons day rest)
  from merge_days_Cons_Inr [OF Cons.prems] obtain day' fin1 rest' where
    1: "merge_day gettz junk dt day fin = (day', Inr fin1)" and
    2: "merge_days gettz junk dt rest fin1 = (rest', Inr fin')" and
    3: "results' = day' # rest'"
    by blast
  have "day' = merged_page junk day"
    using merge_day_Inr [OF 1] merge_areas_fst_Inr [of gettz junk dt _ fin _ fin1]
    by (auto simp: merged_page_def)
  with Cons.IH [OF 2] 3 show ?case by simp
qed

lemma merge_areas_fst_Inl:
  "merge_areas gettz junk dt items fin = (items', Inl e) \<Longrightarrow>
   \<exists>items1 key a items2. items = items1 @ (key, a) # items2 \<and> tzs key \<noteq> None
     \<and> (\<forall>utc. dt = Datetime utc \<longrightarrow> e = InvalidValueException \<longrightarrow> vals a \<noteq> None)
     \<and> items' = map (merged_item junk) items1 @ (key, (add_junk junk a)\<lparr>vals := None\<rparr>) # items2"
proof (induction items arbitrary: fin items')
  case Nil
  then show ?case by simp
next
  case (Cons item items)
  obtain key a where item: "item = (key, a)" by (cases item)
  from merge_areas_Cons_Inl [OF Cons.prems [unfolded item]] show ?case
  proof
    assume "\<exists>a'. merge_area gettz junk dt key a fin = (a', Inl e) \<and> items' = (key, a') # items"
    then obtain a' where 1: "merge_area gettz junk dt key a fin = (a', Inl e)"
      and 3: "items' = (key, a') # items" by blast
    from merge_area_Inl [OF 1] have k: "tzs key \<noteq> None" .
    with merge_area_fst [OF 1] have a': "a' = (add_junk junk a)\<lparr>vals := None\<rparr>" by simp
    have v: "\<forall>utc. dt = Datetime utc \<longrightarrow> e = InvalidValueException \<longrightarrow> vals a \<noteq> None"
      using merge_area_Inl_datetime 1 by blast
    have "item # items = [] @ (key, a) # items" by (simp add: item)
    moreover have "items' = map (merged_item junk) [] @ (key, (add_junk junk a)\<lparr>vals := None\<rparr>) # items"
      by (simp add: 3 a')
    ultimately show ?thesis using k v by blast
  next
    assume "\<exists>a' fin1 rest'. merge_area gettz junk dt key a fin = (a', Inr fin1)
        \<and> merge_areas gettz junk dt items fin1 = (rest', Inl e)
        \<and> items' = (key, a') # rest'"
    then obtain a' fin1 rest' where 1: "merge_area gettz junk dt key a fin = (a', Inr fin1)"
      and 2: "merge_areas gettz junk dt items fin1 = (rest', Inl e)"
      and 3: "items' = (key, a') # rest'" by blast
    from Cons.IH [OF 2] obtain items1 key2 a2 items2 where
      s: "items = items1 @ (key2, a2) # items2" and k: "tzs key2 \<noteq> None"
      and v: "\<forall>utc. dt = Datetime utc \<longrightarrow> e = InvalidValueException \<longrightarrow> vals a2 \<noteq> None"
      and r: "rest' = map (merged_item junk) items1 @ (key2, (add_junk junk a2)\<lparr>vals := None\<rparr>) # items2"
      by blast
    have "item # items = (item # items1) @ (key2, a2) # items2" by (simp add: s)
    moreover have "items' = map (merged_item junk) (item # items1)
        @ (key2, (add_junk junk a2)\<lparr>vals := None\<rparr>) # items2"
      using merge_area_fst [OF 1] by (simp add: 3 r item merged_item_def)
    ultimately show ?thesis using k v by blast
  qed
qed

lemma merge_days_fst_Inl:
  "merge_days gettz junk dt results fin = (results', Inl e) \<Longrightarrow>
   \<exists>ps day qs items1 key a items2.
     results = ps @ day # qs \<and> areas day = Some (items1 @ (key, a) # items2) \<and> tzs key \<noteq> None
     \<and> (\<forall>utc. dt = Datetime utc \<longrightarrow> e = InvalidValueException \<longrightarrow> vals a \<noteq> None)
     \<and> results' = map (merged_page junk) ps
          @ day\<lparr>areas := Some (map (merged_item junk) items1
                                  @ (key, (add_junk junk a)\<lparr>vals := None\<rparr>) # items2)\<rparr> # qs"
proof (induction results arbitrary: fin results')
  case Nil
  then show ?case by simp
next
  case (Cons day rest)
  from merge_days_Cons_Inl [OF Cons.prems] show ?case
  proof
    assume "\<exists>day'. merge_day gettz junk dt day fin = (day', Inl e) \<and> results' = day' # rest"
    then obtain day' where 1: "merge_day gettz junk dt day fin = (day', Inl e)"
      and 3: "results' = day' # rest" by blast
    from merge_day_Inl [OF 1] obtain items items' where i: "areas day = Some items"
      and ma: "merge_areas gettz junk dt items fin = (items', Inl e)"
      and d: "day' = day\<lparr>areas := Some items'\<rparr>" by blast
    from merge_areas_fst_Inl [OF ma] obtain items1 key a items2 where
      s: "items = items1 @ (key, a) # items2" and k: "tzs key \<noteq> None"
      and v: "\<forall>utc. dt = Datetime utc \<longrightarrow> e = InvalidValueException \<longrightarrow> vals a \<noteq> None"
      and r: "items' = map (merged_item junk) items1 @ (key, (add_junk junk a)\<lparr>vals := None\<rparr>) # items2"
      by blast
    have "day # rest = [] @ day # rest" by simp
    moreover have "areas day = Some (items1 @ (key, a) # items2)" by (simp add: i s)
    moreover have "results' = map (merged_page junk) []
          @ day\<lparr>areas := Some (map (merged_item junk) items1
                                  @ (key, (add_junk junk a)\<lparr>vals := None\<rparr>) # items2)\<rparr> # rest"
      by (simp add: 3 d r)
    ultimately show ?thesis using k v by blast
  next
    assume "\<exists>day' fin1 rest'. merge_day gettz junk dt day fin = (day', Inr fin1)
        \<and> merge_days gettz junk dt rest fin1 = (rest', Inl e)
        \<and> results' = day' # rest'"
    then obtain day' fin1 rest' where 1: "merge_day gettz junk dt day fin = (day', Inr fin1)"
      and 2: "merge_days gettz junk dt rest fin1 = (rest', Inl e)"
      and 3: "results' = day' # rest'" by blast
    have d: "day' = merged_page junk day"
      using merge_day_Inr [OF 1] merge_areas_fst_Inr [of gettz junk dt _ fin _ fin1]
      by (auto simp: merged_page_def)
    from Cons.IH [OF 2] obtain ps day2 qs items1 key a items2 where
      s: "rest = ps @ day2 # qs" and i: "areas day2 = Some (items1 @ (key, a) # items2)"
      and k: "tzs key \<noteq> None"
      and v: "\<forall>utc. dt = Datetime utc \<longrightarrow> e = InvalidValueException \<longrightarrow> vals a \<noteq> None"
      and r: "rest' = map (merged_page junk) ps
          @ day2\<lparr>areas := Some (map (merged_item junk) items1
                                  @ (key, (add_junk junk a)\<lparr>vals := None\<rparr>) # items2)\<rparr> # qs"
      by blast
    have "day # rest = (day # ps) @ day2 # qs" by (simp add: s)
    moreover have "results' = map (merged_page junk) (day # ps)
          @ day2\<lparr>areas := Some (map (merged_item junk) items1
                                  @ (key, (add_junk junk a)\<lparr>vals := None\<rparr>) # items2)\<rparr> # qs"
      by (simp add: 3 d r)
    ultimately show ?thesis using i k v by blast
  qed
qed

section \<open>Unknown areas and failures\<close>

lemma snd_merge_areas_Cons:
  "snd (merge_areas gettz junk dt ((key, a) # rest) fin) =
     (case snd (merge_area gettz junk dt key a fin) of
        Inl e \<Rightarrow> Inl e
      | Inr fin' \<Rightarrow> snd (merge_areas gettz junk dt rest fin'))"
  by (simp split: prod.splits sum.splits)

lemma snd_merge_day:
  "snd (merge_day gettz junk dt day fin) =
     (case areas day of None \<Rightarrow> Inr fin
      | Some items \<Rightarrow> snd (merge_areas gettz junk dt items fin))"
  by (simp add: merge_day_def split: option.splits prod.splits)

lemma snd_merge_days_Cons:
  "snd (merge_days gettz junk dt (day # rest) fin) =
     (case snd (merge_day gettz junk dt day fin) of
        Inl e \<Rightarrow> Inl e
      | Inr fin' \<Rightarrow> snd (merge_days gettz junk dt rest fin'))"
  by (simp split: prod.splits sum.splits)

lemma merge_areas_remove:
  "tzs key = None \<Longrightarrow>
   snd (merge_areas gettz junk dt (filter (\<lambda>item. fst item \<noteq> key) items) fin)
     = snd (merge_areas gettz junk dt items fin)"
proof (induction items arbitrary: fin)
  case Nil
  show ?case by simp
next
  case (Cons item items)
  obtain k a where item: "item = (k, a)" by (cases item)
  show ?case
  proof (cases "k = key")
    case True
    have "snd (merge_areas gettz junk dt (item # items) fin)
            = snd (merge_areas gettz junk dt items fin)"
      unfolding item snd_merge_areas_Cons using True Cons.prems
      by (simp add: merge_area_unknown)
    with True Cons.IH [OF Cons.prems] show ?thesis by (simp add: item)
  next
    case False
    let ?P = "\<lambda>item. fst item \<noteq> key"
    have "snd (merge_areas gettz junk dt (filter ?P (item # items)) fin)
            = snd (merge_areas gettz junk dt ((k, a) # filter ?P items) fin)"
      using False by (simp add: item del: merge_areas.simps)
    also have "\<dots> = (case snd (merge_area gettz junk dt k a fin) of
                        Inl e \<Rightarrow> Inl e
                      | Inr fin' \<Rightarrow> snd (merge_areas gettz junk dt (filter ?P items) fin'))"
      by (rule snd_merge_areas_Cons)
    also have "\<dots> = (case snd (merge_area gettz junk dt k a fin) of
                        Inl e \<Rightarrow> Inl e
                      | Inr fin' \<Rightarrow> snd (merge_areas gettz junk dt items fin'))"
      by (simp add: Cons.IH [OF Cons.prems] split: sum.splits)
    also have "\<dots> = snd (merge_areas gettz junk dt ((k, a) # items) fin)"
      by (rule snd_merge_areas_Cons [symmetric])
    finally show ?thesis by (simp only: item)
  qed
qed

lemma merge_day_remove:
  "tzs key = None \<Longrightarrow>
   snd (merge_day gettz junk dt (remove_area key day) fin) = snd (merge_day gettz junk dt day fin)"
  unfolding snd_merge_day
  by (cases "areas day") (simp_all add: remove_area_def merge_areas_remove)

lemma merge_days_remove:
  "tzs key = None \<Longrightarrow>
   snd (merge_days gettz junk dt (map (remove_area key) results) fin)
     = snd (merge_days gettz junk dt results fin)"
proof (induction results arbitrary: fin)
  case Nil
  show ?case by simp
next
  case (Cons day rest)
  let ?R = "map (remove_area key)"
  have "snd (merge_days gettz junk dt (?R (day # rest)) fin)
          = snd (merge_days gettz junk dt (remove_area key day # ?R rest) fin)"
    by (simp del: merge_days.simps)
  also have "\<dots> = (case snd (merge_day gettz junk dt (remove_area key day) fin) of
                      Inl e \<Rightarrow> Inl e
                    | Inr fin' \<Rightarrow> snd (merge_days gettz junk dt (?R rest) fin'))"
    by (rule snd_merge_days_Cons)
  also have "\<dots> = (case snd (merge_day gettz junk dt day fin) of
                      Inl e \<Rightarrow> Inl e
                    | Inr fin' \<Rightarrow> snd (merge_days gettz junk dt rest fin'))"
    by (simp add: Cons.IH [OF Cons.prems] merge_day_remove [OF Cons.prems] split: sum.splits)
  also have "\<dots> = snd (merge_days gettz junk dt (day # rest) fin)"
    by (rule snd_merge_days_Cons [symmetric])
  finally show ?case .
qed

lemma merge_days_fin_area:
  assumes "merge_days gettz junk dt results None = (results', Inr fin')"
    and "fin_area fin' k \<noteq> None"
  shows "tzs k \<noteq> None \<and> (\<exists>utc. dt = Datetime utc)"
proof (cases "\<exists>utc. dt = Datetime utc")
  case True
  then obtain utc where "dt = Datetime utc" by blast
  with assms merge_days_sub [of gettz junk utc results None results' fin' k] show ?thesis
    by (simp add: fin_area_def)
next
  case False
  with merge_days_not_datetime [OF _ assms(1)] have "fin' = None" by simp
  with assms(2) show ?thesis by (simp add: fin_area_def)
qed

lemma merge_areas_Inl_kind:
  "merge_areas gettz junk (Datetime utc) items fin = (items', Inl e) \<Longrightarrow>
   \<forall>item\<in>set items. vals (snd item) \<noteq> None \<Longrightarrow> e = InvalidValueException"
proof (induction items arbitrary: fin items')
  case Nil
  then show ?case by simp
next
  case (Cons item items)
  obtain key a where item: "item = (key, a)" by (cases item)
  from Cons.prems(2) have va: "vals a \<noteq> None"
    and rest: "\<forall>item\<in>set items. vals (snd item) \<noteq> None" by (simp_all add: item)
  from merge_areas_Cons_Inl [OF Cons.prems(1) [unfolded item]] show ?case
  proof
    assume "\<exists>a'. merge_area gettz junk (Datetime utc) key a fin = (a', Inl e)
              \<and> items' = (key, a') # items"
    then obtain a' where "merge_area gettz junk (Datetime utc) key a fin = (a', Inl e)" by blast
    from merge_area_Inl_datetime [OF this] va show ?thesis by simp
  next
    assume "\<exists>a' fin1 rest'. merge_area gettz junk (Datetime utc) key a fin = (a', Inr fin1)
        \<and> merge_areas gettz junk (Datetime utc) items fin1 = (rest', Inl e)
        \<and> items' = (key, a') # rest'"
    then obtain fin1 rest' where
      "merge_areas gettz junk (Datetime utc) items fin1 = (rest', Inl e)" by blast
    from Cons.IH [OF this rest] show ?thesis .
  qed
qed

lemma merge_area_Inr_no_bad:
  assumes "merge_area gettz junk (Datetime utc) key a fin = (a', Inr fin')"
    and "tzs key = Some name" and "vals a = Some vs" and "v \<in> set vs"
    and "in_local_day (gettz name) utc v"
  shows "p_value v \<notin> INVALID_VALUES"
  using assms by (auto simp: merge_area_known split: if_splits)

lemma merge_areas_Inr_no_bad:
  "merge_areas gettz junk (Datetime utc) items fin = (items', Inr fin') \<Longrightarrow>
   (key, a) \<in> set items \<Longrightarrow> tzs key = Some name \<Longrightarrow> vals a = Some vs \<Longrightarrow> v \<in> set vs \<Longrightarrow>
   in_local_day (gettz name) utc v \<Longrightarrow> p_value v \<notin> INVALID_VALUES"
proof (induction items arbitrary: fin items')
  case Nil
  then show ?case by simp
next
  case (Cons item items)
  obtain key2 a2 where item: "item = (key2, a2)" by (cases item)
  from merge_areas_Cons_Inr [OF Cons.prems(1) [unfolded item]] obtain a' fin1 rest' where
    1: "merge_area gettz junk (Datetime utc) key2 a2 fin = (a', Inr fin1)" and
    2: "merge_areas gettz junk (Datetime utc) items fin1 = (rest', Inr fin')"
    by blast
  from Cons.prems(2) have "(key, a) = (key2, a2) \<or> (key, a) \<in> set items" by (auto simp: item)
  then show ?case
  proof
    assume "(key, a) = (key2, a2)"
    with 1 have "merge_area gettz junk (Datetime utc) key a fin = (a', Inr fin1)" by simp
    from merge_area_Inr_no_bad [OF this Cons.prems(3-6)] show ?thesis .
  next
    assume "(key, a) \<in> set items"
    from Cons.IH [OF 2 this Cons.prems(3-6)] show ?thesis .
  qed
qed

lemma merge_days_Inl_kind:
  "merge_days gettz junk (Datetime utc) results fin = (results', Inl e) \<Longrightarrow>
   \<forall>day\<in>set results. parsed_page day \<Longrightarrow> e = InvalidValueException"
proof (induction results arbitrary: fin results')
  case Nil
  then show ?case by simp
next
  case (Cons day rest)
  from Cons.prems(2) have pd: "parsed_page day" and pr: "\<forall>day\<in>set rest. parsed_page day"
    by simp_all
  from merge_days_Cons_Inl [OF Cons.prems(1)] show ?case
  proof
    assume "\<exists>day'. merge_day gettz junk (Datetime utc) day fin = (day', Inl e)
              \<and> results' = day' # rest"
    then obtain day' where "merge_day gettz junk (Datetime utc) day fin = (day', Inl e)" by blast
    from merge_day_Inl [OF this] obtain items items' where i: "areas day = Some items"
      and ma: "merge_areas gettz junk (Datetime utc) items fin = (items', Inl e)" by blast
    from pd i have "\<forall>item\<in>set items. vals (snd item) \<noteq> None"
      by (auto simp: parsed_page_def list_all_iff)
    from merge_areas_Inl_kind [OF ma this] show ?thesis .
  next
    assume "\<exists>day' fin1 rest'. merge_day gettz junk (Datetime utc) day fin = (day', Inr fin1)
        \<and> merge_days gettz junk (Datetime utc) rest fin1 = (rest', Inl e)
        \<and> results' = day' # rest'"
    then obtain fin1 rest' where
      "merge_days gettz junk (Datetime utc) rest fin1 = (rest', Inl e)" by blast
    from Cons.IH [OF this pr] show ?thesis .
  qed
qed

lemma merge_days_Inr_no_bad:
  "merge_days gettz junk (Datetime utc) results fin = (results', Inr fin') \<Longrightarrow>
   day \<in> set results \<Longrightarrow> areas day = Some items \<Longrightarrow>
   (key, a) \<in> set items \<Longrightarrow> tzs key = Some name \<Longrightarrow> vals a = Some vs \<Longrightarrow> v \<in> set vs \<Longrightarrow>
   in_local_day (gettz name) utc v \<Longrightarrow> p_value v \<notin> INVALID_VALUES"
proof (induction results arbitrary: fin results')
  case Nil
  then show ?case by simp
next
  case (Cons day2 rest)
  from merge_days_Cons_Inr [OF Cons.prems(1)] obtain day' fin1 rest' where
    1: "merge_day gettz junk (Datetime utc) day2 fin = (day', Inr fin1)" and
    2: "merge_days gettz junk (Datetime utc) rest fin1 = (rest', Inr fin')"
    by blast
  from Cons.prems(2) have "day = day2 \<or> day \<in> set rest" by auto
  then show ?case
  proof
    assume "day = day2"
    with merge_day_Inr [OF 1] Cons.prems(3) obtain items' where
      "merge_areas gettz junk (Datetime utc) items fin = (items', Inr fin1)" by auto
    from merge_areas_Inr_no_bad [OF this Cons.prems(4-8)] show ?thesis .
  next
    assume "day \<in> set rest"
    from Cons.IH [OF 2 this Cons.prems(3-8)] show ?thesis .
  qed
qed

section \<open>Records of the merged result lie in the local day\<close>

lemma in_local_day_same_day:
  assumes "in_local_day zone utc v"
  shows "astimezone zone (p_start v) div 86400000000 = astimezone zone utc div 86400000000"
proof -
  let ?w = "astimezone zone utc" and ?l = "astimezone zone (p_start v)"
  have m: "?w - ?w mod 86400000000 = 86400000000 * (?w div 86400000000)"
    by (rule minus_mod_eq_mult_div)
  from assms have "86400000000 * (?w div 86400000000) \<le> ?l"
    and "?l \<le> 86400000000 * (?w div 86400000000) + 86399999999"
    unfolding in_local_day_def replace_midnight_def replace_last_microsecond_def m by simp_all
  then have "?l = 86400000000 * (?w div 86400000000) + (?l - 86400000000 * (?w div 86400000000))"
    and "0 \<le> ?l - 86400000000 * (?w div 86400000000)"
    and "?l - 86400000000 * (?w div 86400000000) < 86400000000" by simp_all
  then show ?thesis by (rule int_div_pos_eq)
qed

lemma join_output_qualifies:
  assumes j: "snd (join_result_for_correct_time gettz junk results dt) = Inr fin"
    and a: "fin_area fin key = Some a" and vs: "vals a = Some vs" and v: "v \<in> set vs"
  shows "\<exists>utc name. dt = Datetime utc \<and> tzs key = Some name \<and> qualifies (gettz name) utc v"
proof -
  obtain results' where m: "merge_days gettz junk dt results None = (results', Inr fin)"
    using j unfolding join_result_for_correct_time_def
    by (cases "merge_days gettz junk dt results None") simp
  from a have "fin_area fin key \<noteq> None" by simp
  from merge_days_fin_area [OF m this] obtain utc where dt: "dt = Datetime utc" by blast
  from a vs v have "v \<in> set (fin_values fin key)" by (simp add: fin_values_def)
  with merge_days_sub [OF m [unfolded dt], of key]
  have "\<exists>name. tzs key = Some name \<and> qualifies (gettz name) utc v"
    by (auto simp: fin_values_def fin_area_def)
  with dt show ?thesis by blast
qed

lemma example_join:
  "snd (join_result_for_correct_time example_gettz example_junk
          [example_page1, example_page2, example_page3] (Datetime example_utc))
     = Inr example_merged"
  by code_simp

lemma example_merged_SE1: "fin_area example_merged ''SE1'' = Some example_merged_area"
  by (simp add: fin_area_def example_merged_def)

lemma example_merged_vals: "vals example_merged_area = Some example_merged_values"
  by (simp add: example_merged_area_def)

text \<open>
  C1. Whenever the merge returns a result, every record in the values list of an area
  of that result belongs to an area of the table \<open>tzs\<close>, and its start, read on the
  wall clock of the area's zone, lies between 00:00:00.000000 and 23:59:59.999999 of
  the day on which the reference instant falls on that wall clock; so the record and the
  reference instant have the same local calendar day. No record outside these bounds is
  in the result.
\<close>

theorem output_within_local_day:
  assumes "snd (join_result_for_correct_time gettz junk results dt) = Inr fin"
    and "fin_area fin key = Some a" and "vals a = Some vs" and "v \<in> set vs"
  shows "\<exists>utc name. dt = Datetime utc \<and> tzs key = Some name
     \<and> replace_midnight (astimezone (gettz name) utc) \<le> astimezone (gettz name) (p_start v)
     \<and> astimezone (gettz name) (p_start v)
          \<le> replace_last_microsecond (astimezone (gettz name) utc)
     \<and> astimezone (gettz name) (p_start v) div 86400000000
          = astimezone (gettz name) utc div 86400000000"
proof -
  from join_output_qualifies [OF assms] obtain utc name where
    "dt = Datetime utc" and "tzs key = Some name" and q: "qualifies (gettz name) utc v" by blast
  moreover from q have i: "in_local_day (gettz name) utc v" by (simp add: qualifies_def)
  moreover note in_local_day_same_day [OF i]
  ultimately show ?thesis unfolding in_local_day_def by blast
qed

theorem output_within_local_day_witness:
  "\<exists>utc name. Datetime example_utc = Datetime utc \<and> tzs ''SE1'' = Some name
     \<and> replace_midnight (astimezone (example_gettz name) utc)
          \<le> astimezone (example_gettz name) (p_start (hour_rec (- 2) (PyFloat (Finite 41))))
     \<and> astimezone (example_gettz name) (p_start (hour_rec (- 2) (PyFloat (Finite 41))))
          \<le> replace_last_microsecond (astimezone (example_gettz name) utc)
     \<and> astimezone (example_gettz name) (p_start (hour_rec (- 2) (PyFloat (Finite 41))))
            div 86400000000
          = astimezone (example_gettz name) utc div 86400000000"
proof (rule output_within_local_day [OF example_join example_merged_SE1 example_merged_vals])
  show "hour_rec (- 2) (PyFloat (Finite 41)) \<in> set example_merged_values"
    by (simp add: example_merged_values_def)
qed

section \<open>Anomaly hours, duplicates and metadata\<close>

text \<open>
  C5. Whenever the merge returns a result, no record in the values list of an area of
  that result has the same wall-clock reading for its start and for its end in the area's
  zone: the hours whose start and end coincide locally are left out.
\<close>

theorem no_dst_anomaly_hour_in_output:
  assumes "snd (join_result_for_correct_time gettz junk results dt) = Inr fin"
    and "fin_area fin key = Some a" and "vals a = Some vs" and "v \<in> set vs"
  shows "\<exists>name. tzs key = Some name
     \<and> astimezone (gettz name) (p_start v) \<noteq> astimezone (gettz name) (p_end v)"
proof -
  from join_output_qualifies [OF assms] obtain utc name where
    "tzs key = Some name" and "qualifies (gettz name) utc v" by blast
  then show ?thesis by (auto simp: qualifies_def)
qed

theorem no_dst_anomaly_hour_in_output_witness:
  "\<exists>name. tzs ''SE1'' = Some name
     \<and> astimezone (example_gettz name) (p_start (hour_rec 1 (PyFloat (Finite 44))))
          \<noteq> astimezone (example_gettz name) (p_end (hour_rec 1 (PyFloat (Finite 44))))"
proof (rule no_dst_anomaly_hour_in_output [OF example_join example_merged_SE1 example_merged_vals])
  show "hour_rec 1 (PyFloat (Finite 44)) \<in> set example_merged_values"
    by (simp add: example_merged_values_def)
qed

lemma count_list_filter:
  "count_list (filter P xs) r = (if P r then count_list xs r else 0)"
  by (induction xs) auto

lemma join_three_pages:
  assumes j: "snd (join_result_for_correct_time gettz junk [page1, page2, page3] (Datetime utc))
                = Inr fin"
    and p: "parsed_page page1" "parsed_page page2" "parsed_page page3"
    and k: "tzs key = Some name"
  shows "fin_values fin key = filter (qualifies (gettz name) utc)
           (page_values page1 key @ page_values page2 key @ page_values page3 key)"
    and "fin_meta fin key = page_meta junk page1 key ++ page_meta junk page2 key
           ++ page_meta junk page3 key"
proof -
  obtain results' where
    m: "merge_days gettz junk (Datetime utc) [page1, page2, page3] None = (results', Inr fin)"
    using j unfolding join_result_for_correct_time_def
    by (cases "merge_days gettz junk (Datetime utc) [page1, page2, page3] None") simp
  from p have "\<forall>day\<in>set [page1, page2, page3]. parsed_page day" by simp
  note e = merge_days_exact [OF m this k]
  from e show "fin_values fin key = filter (qualifies (gettz name) utc)
           (page_values page1 key @ page_values page2 key @ page_values page3 key)"
    by (simp add: fin_values_def fin_area_def)
  from e show "fin_meta fin key = page_meta junk page1 key ++ page_meta junk page2 key
           ++ page_meta junk page3 key"
    by (simp add: fin_meta_def fin_area_def)
qed

text \<open>
  C2, as stated, fails: the merge has no step that removes duplicates. The second
  example page and the overlapping page both hold the hour from 01:00 UTC for SE1, the
  hour qualifies, and the merged list holds it twice.
\<close>

theorem duplicates_across_pages_counterexample:
  "snd (join_result_for_correct_time example_gettz example_junk
          [example_page1, example_page2, example_overlap_page] (Datetime example_utc))
     = Inr example_overlap_merged
   \<and> count_list (fin_values example_overlap_merged ''SE1'') (hour_rec 1 (PyFloat (Finite 44))) = 2"
  by code_simp

text \<open>
  C2, amended. For three pages as the parser builds them and an area of the table
  \<open>tzs\<close>, the values list of the area in the merged result is the list of the records
  of the first, the second and the third page for that area, in that order, with the
  records that do not qualify (start outside the local day, or start and end equal on the
  local wall clock) left out. So a qualifying record is in the result as many times as the
  three pages hold it, and exactly once when they hold it once between them.
\<close>

theorem merged_values_count:
  assumes "snd (join_result_for_correct_time gettz junk [page1, page2, page3] (Datetime utc))
             = Inr fin"
    and "parsed_page page1" and "parsed_page page2" and "parsed_page page3"
    and "tzs key = Some name"
  shows "fin_values fin key = filter (qualifies (gettz name) utc)
           (page_values page1 key @ page_values page2 key @ page_values page3 key)
     \<and> count_list (fin_values fin key) r =
         (if qualifies (gettz name) utc r
          then count_list (page_values page1 key) r + count_list (page_values page2 key) r
               + count_list (page_values page3 key) r
          else 0)"
  by (simp add: join_three_pages(1) [OF assms] count_list_filter)

lemma example_pages_parsed:
  "parsed_page example_page1" "parsed_page example_page2" "parsed_page example_page3"
  by (simp_all add: parsed_page_def example_page1_def example_page2_def example_page3_def)

lemma tzs_SE1: "tzs ''SE1'' = Some ''Europe/Stockholm''"
  by (simp add: tzs_def)

theorem merged_values_count_witness:
  "fin_values example_merged ''SE1'' = filter (qualifies (example_gettz ''Europe/Stockholm'') example_utc)
           (page_values example_page1 ''SE1'' @ page_values example_page2 ''SE1''
            @ page_values example_page3 ''SE1'')
     \<and> count_list (fin_values example_merged ''SE1'') (hour_rec 1 (PyFloat (Finite 44))) =
         (if qualifies (example_gettz ''Europe/Stockholm'') example_utc (hour_rec 1 (PyFloat (Finite 44)))
          then count_list (page_values example_page1 ''SE1'') (hour_rec 1 (PyFloat (Finite 44)))
               + count_list (page_values example_page2 ''SE1'') (hour_rec 1 (PyFloat (Finite 44)))
               + count_list (page_values example_page3 ''SE1'') (hour_rec 1 (PyFloat (Finite 44)))
          else 0)"
  by (rule merged_values_count [OF example_join example_pages_parsed tzs_SE1])

text \<open>
  C4, as stated, fails: \<open>update\<close> overwrites. The three example pages carry the averages
  40.5, 43 and 45.5 for SE1; the merged result carries 45.5, the value of the third page,
  not the 40.5 of the first.
\<close>

theorem first_page_metadata_overwritten_counterexample:
  "snd (join_result_for_correct_time example_gettz example_junk
          [example_page1, example_page2, example_page3] (Datetime example_utc))
     = Inr example_merged
   \<and> page_meta example_junk example_page1 ''SE1'' ''Average'' = Some (PyFloat (Finite 40.5))
   \<and> fin_meta example_merged ''SE1'' ''Average'' = Some (PyFloat (Finite 45.5))
   \<and> fin_meta example_merged ''SE1'' ''Average''
       \<noteq> page_meta example_junk example_page1 ''SE1'' ''Average''"
  by code_simp

text \<open>
  C4, amended. For three pages as the parser builds them and an area of the table
  \<open>tzs\<close>, the metadata of the area in the merged result is the metadata of the first
  page after stamping, overwritten by that of the second page, overwritten by that of the
  third: under each key stands the value of the last page that has the key. The values
  lists of the three pages accumulate into one list, in page order.
\<close>

theorem merged_metadata_later_page_wins:
  assumes "snd (join_result_for_correct_time gettz junk [page1, page2, page3] (Datetime utc))
             = Inr fin"
    and "parsed_page page1" and "parsed_page page2" and "parsed_page page3"
    and "tzs key = Some name"
  shows "fin_meta fin key = page_meta junk page1 key ++ page_meta junk page2 key
           ++ page_meta junk page3 key
     \<and> (\<forall>m x. page_meta junk page3 key m = Some x \<longrightarrow> fin_meta fin key m = Some x)
     \<and> fin_values fin key = filter (qualifies (gettz name) utc)
           (page_values page1 key @ page_values page2 key @ page_values page3 key)"
  by (simp add: join_three_pages [OF assms])

lemma example_page3_average:
  "page_meta example_junk example_page3 ''SE1'' ''Average'' = Some (PyFloat (Finite 45.5))"
  by code_simp

theorem merged_metadata_later_page_wins_witness:
  "fin_meta example_merged ''SE1'' = page_meta example_junk example_page1 ''SE1''
           ++ page_meta example_junk example_page2 ''SE1''
           ++ page_meta example_junk example_page3 ''SE1''
     \<and> fin_meta example_merged ''SE1'' ''Average'' = Some (PyFloat (Finite 45.5))
     \<and> fin_values example_merged ''SE1''
         = filter (qualifies (example_gettz ''Europe/Stockholm'') example_utc)
             (page_values example_page1 ''SE1'' @ page_values example_page2 ''SE1''
              @ page_values example_page3 ''SE1'')"
  using merged_metadata_later_page_wins [OF example_join example_pages_parsed tzs_SE1]
    example_page3_average
  by blast

section \<open>Invalid values and unknown areas\<close>

text \<open>
  C3. Let the pages be as the parser builds them, and let one of them hold, for an area
  of the table \<open>tzs\<close>, a record whose value is \<open>None\<close> or infinity and whose start lies
  in the local day of the reference instant. Then the merge raises
  \<open>InvalidValueException\<close>: the caller receives no result. The decorator of \<open>fetch\<close>
  does not list this exception, so the call is not made again.
\<close>

theorem invalid_value_fails_merge:
  assumes "\<forall>day\<in>set results. parsed_page day"
    and "day \<in> set results" and "page_area day key = Some a" and "tzs key = Some name"
    and "vals a = Some vs" and "v \<in> set vs"
    and "p_value v \<in> INVALID_VALUES"
    and "in_local_day (gettz name) utc v"
  shows "snd (join_result_for_correct_time gettz junk results (Datetime utc))
           = Inl InvalidValueException
     \<and> \<not> backoff_retries InvalidValueException"
proof -
  from assms(3) obtain items where i: "areas day = Some items" and "map_of items key = Some a"
    by (auto simp: page_area_def split: option.splits)
  then have ka: "(key, a) \<in> set items" by (simp add: map_of_SomeD)
  obtain results' r where
    m: "merge_days gettz junk (Datetime utc) results None = (results', r)"
    by (cases "merge_days gettz junk (Datetime utc) results None")
  have "r = Inl InvalidValueException"
  proof (cases r)
    case (Inl e)
    with merge_days_Inl_kind [OF m [unfolded Inl] assms(1)] show ?thesis by simp
  next
    case (Inr fin)
    from merge_days_Inr_no_bad [OF m [unfolded Inr] assms(2) i ka assms(4-6) assms(8)] assms(7)
    show ?thesis by simp
  qed
  with m show ?thesis
    by (simp add: join_result_for_correct_time_def backoff_retries_def)
qed

lemma example_bad_page_parsed: "parsed_page example_bad_page"
  by (simp add: parsed_page_def example_bad_page_def)

theorem invalid_value_fails_merge_witness:
  "snd (join_result_for_correct_time example_gettz example_junk
          [example_page1, example_bad_page, example_page3] (Datetime example_utc))
           = Inl InvalidValueException
     \<and> \<not> backoff_retries InvalidValueException"
proof (rule invalid_value_fails_merge)
  show "\<forall>day\<in>set [example_page1, example_bad_page, example_page3]. parsed_page day"
    by (simp add: example_pages_parsed example_bad_page_parsed)
  show "example_bad_page \<in> set [example_page1, example_bad_page, example_page3]" by simp
  show "page_area example_bad_page ''SE1'' =
          Some \<lparr>vals = Some [hour_rec 4 (PyFloat (Finite 47)), hour_rec 5 PyNone],
                meta = [(''Average'', PyFloat (Finite 47))]\<rparr>"
    by (simp add: page_area_def example_bad_page_def)
  show "tzs ''SE1'' = Some ''Europe/Stockholm''" by (rule tzs_SE1)
  show "vals \<lparr>vals = Some [hour_rec 4 (PyFloat (Finite 47)), hour_rec 5 PyNone],
              meta = [(''Average'', PyFloat (Finite 47))]\<rparr>
          = Some [hour_rec 4 (PyFloat (Finite 47)), hour_rec 5 PyNone]" by simp
  show "hour_rec 5 PyNone \<in> set [hour_rec 4 (PyFloat (Finite 47)), hour_rec 5 PyNone]" by simp
  show "p_value (hour_rec 5 PyNone) \<in> INVALID_VALUES"
    by (simp add: hour_rec_def INVALID_VALUES_def)
  show "in_local_day (example_gettz ''Europe/Stockholm'') example_utc (hour_rec 5 PyNone)"
    by (simp add: in_local_day_def example_gettz_def eu_summer_2021_def example_utc_def
        hour_rec_def astimezone_def replace_midnight_def replace_last_microsecond_def)
qed

text \<open>
  C6. An area whose code is not in the table \<open>tzs\<close> is passed over: the merge returns
  what it returns for the same pages without that area (the same result or the same
  exception), and the area is not in the result.
\<close>

theorem unknown_area_skipped:
  assumes "tzs key = None"
  shows "snd (join_result_for_correct_time gettz junk results dt)
           = snd (join_result_for_correct_time gettz junk (map (remove_area key) results) dt)
     \<and> (\<forall>fin. snd (join_result_for_correct_time gettz junk results dt) = Inr fin
            \<longrightarrow> fin_area fin key = None)"
proof
  show "snd (join_result_for_correct_time gettz junk results dt)
           = snd (join_result_for_correct_time gettz junk (map (remove_area key) results) dt)"
    by (simp add: join_result_for_correct_time_def merge_days_remove [OF assms])
  show "\<forall>fin. snd (join_result_for_correct_time gettz junk results dt) = Inr fin
            \<longrightarrow> fin_area fin key = None"
  proof (intro allI impI)
    fix fin
    assume j: "snd (join_result_for_correct_time gettz junk results dt) = Inr fin"
    obtain results' where m: "merge_days gettz junk dt results None = (results', Inr fin)"
      using j unfolding join_result_for_correct_time_def
      by (cases "merge_days gettz junk dt results None") simp
    show "fin_area fin key = None"
    proof (rule ccontr)
      assume "fin_area fin key \<noteq> None"
      from merge_days_fin_area [OF m this] assms show False by simp
    qed
  qed
qed

lemma tzs_PL: "tzs ''PL'' = None"
  by (simp add: tzs_def)

theorem unknown_area_skipped_witness:
  "snd (join_result_for_correct_time example_gettz example_junk
          [example_page1, example_page2, example_page3] (Datetime example_utc))
     = snd (join_result_for_correct_time example_gettz example_junk
          (map (remove_area ''PL'') [example_page1, example_page2, example_page3])
          (Datetime example_utc))
   \<and> fin_area example_merged ''PL'' = None"
  using unknown_area_skipped [OF tzs_PL, of example_gettz example_junk
      "[example_page1, example_page2, example_page3]" "Datetime example_utc"] example_join
  by blast

section \<open>The numeric normalizer\<close>

lemma py_float_raises_ValueError:
  "py_float t = Inl e \<Longrightarrow> e = ValueError"
  by (auto simp: py_float_def split: option.splits prod.splits if_splits)

lemma round_double_small:
  assumes "\<bar>r\<bar> < 2 ^ 64"
  shows "round_double r = Finite r"
proof -
  have "(2::rat) ^ 64 \<le> 2 ^ 1024 - 2 ^ 970" by simp
  with assms show ?thesis by (auto simp: round_double_def)
qed

lemma py_float_1234_56: "py_float ''1234.56'' = Inr (Finite 1234.56)"
proof -
  have s: "strip ''1234.56'' = ''1234.56''"
    by (simp add: strip_def py_isspace_def)
  have u: "drop_underscores (CHR 0x00) ''1234.56'' = Some ''1234.56''"
    by (simp add: is_digit_def)
  have p: "parse_decimal ''1234.56'' = Some (123456, - 2)"
    by (simp add: parse_decimal_def is_digit_def digits_to_int_def digit_val_def)
  show ?thesis
    by (simp add: py_float_def s u p lower_def decimal_value_def round_double_small)
qed

lemma conv_to_float_dotted: "conv_to_float ''1.234,56'' = Inr PosInf"
  by code_simp

lemma conv_to_float_spaced: "conv_to_float ''1 234,56'' = Inr (Finite 1234.56)"
proof -
  have "replace (CHR '' '') '''' (replace (CHR '','') ''.'' ''1 234,56'') = ''1234.56''"
    by (simp add: replace_def)
  then show ?thesis by (simp add: conv_to_float_def py_float_1234_56)
qed

lemma conv_to_float_abc: "conv_to_float ''abc'' = Inr PosInf"
  by code_simp

text \<open>
  C7, as stated, fails on its first value: the normalizer turns the comma into a period
  and removes spaces, nothing else, so \<open>1.234,56\<close> becomes \<open>1.234.56\<close>, which
  \<open>float\<close> rejects, and the result is infinity, not 1234.56.
\<close>

theorem to_number_dotted_thousands_counterexample:
  "conv_to_float ''1.234,56'' = Inr PosInf
   \<and> conv_to_float ''1.234,56'' \<noteq> Inr (Finite 1234.56)"
  by (simp add: conv_to_float_dotted)

text \<open>
  C7, amended. \<open>to_number("1.234,56")\<close> is positive infinity; with a space as the
  thousands separator, \<open>to_number("1 234,56")\<close> is 1234.56; \<open>to_number("abc")\<close> is
  positive infinity.
\<close>

theorem to_number_test_values:
  "conv_to_float ''1.234,56'' = Inr PosInf
   \<and> conv_to_float ''1 234,56'' = Inr (Finite 1234.56)
   \<and> conv_to_float ''abc'' = Inr PosInf"
  by (simp only: conv_to_float_dotted conv_to_float_spaced conv_to_float_abc simp_thms)

text \<open>
  C8. On every string the normalizer returns a float and raises nothing; whenever
  \<open>float\<close> rejects the rewritten string, the float returned is positive infinity.
\<close>

theorem to_number_total:
  "(\<exists>x. conv_to_float s = Inr x)
   \<and> (\<forall>e. py_float (replace (CHR '' '') '''' (replace (CHR '','') ''.'' s)) = Inl e
          \<longrightarrow> conv_to_float s = Inr PosInf)"
proof (cases "py_float (replace (CHR '' '') '''' (replace (CHR '','') ''.'' s))")
  case (Inl e)
  from py_float_raises_ValueError [OF Inl] Inl show ?thesis
    by (simp add: conv_to_float_def is_ValueError_def)
next
  case (Inr x)
  then show ?thesis by (simp add: conv_to_float_def)
qed

lemma py_float_abc:
  "py_float (replace (CHR '' '') '''' (replace (CHR '','') ''.'' ''abc'')) = Inl ValueError"
  by code_simp

theorem to_number_total_witness:
  "(\<exists>x. conv_to_float ''abc'' = Inr x)
   \<and> py_float (replace (CHR '' '') '''' (replace (CHR '','') ''.'' ''abc'')) = Inl ValueError
   \<and> conv_to_float ''abc'' = Inr PosInf"
  using to_number_total [of "''abc''"] py_float_abc by blast

section \<open>The reference instant of the public API\<close>

text \<open>
  C9 does not hold on the code. \<open>fetch\<close> hands \<open>end_date\<close> to the merge as it came in;
  when it is absent the merge calls \<open>astimezone\<close> on \<open>None\<close> at the first area it knows,
  and the call raises \<open>AttributeError\<close>. With tomorrow's instant given, the same call
  returns a result.
\<close>

theorem hourly_without_end_date_raises:
  "hourly example_get_page example_gettz example_junk example_utc example_utc example_utc
     NoneDate None = Inl AttributeError
   \<and> hourly example_get_page example_gettz example_junk example_utc example_utc example_utc
     (Datetime (example_utc + 86400000000)) None = Inr example_tomorrow"
  by code_simp

section \<open>The merge writes into its input\<close>

lemma example_join_bad:
  "join_result_for_correct_time example_gettz example_junk
     [example_page1, example_bad_page, example_page3] (Datetime example_utc)
   = ([merged_page example_junk example_page1, merged_page example_junk example_bad_page,
       example_page3],
      Inl InvalidValueException)"
  by code_simp

text \<open>
  C10. The merge writes into the pages it is given. When it returns a result, every
  page has been gone through: each area of the table \<open>tzs\<close> has lost its \<open>values\<close> entry
  and carries the stamped metadata, the other areas are as they were. When it raises
  \<open>InvalidValueException\<close>, the pages before the failing one, the areas before the
  failing one in its page, and the failing area itself (which did hold a \<open>values\<close>
  entry) are left in that same state; the rest is as it was. Nothing is restored.
\<close>

theorem merge_mutates_pages:
  "(\<forall>fin. snd (join_result_for_correct_time gettz junk results (Datetime utc)) = Inr fin
       \<longrightarrow> fst (join_result_for_correct_time gettz junk results (Datetime utc))
             = map (merged_page junk) results)
   \<and> (snd (join_result_for_correct_time gettz junk results (Datetime utc))
         = Inl InvalidValueException
       \<longrightarrow> (\<exists>ps day qs items1 key a items2.
              results = ps @ day # qs
              \<and> areas day = Some (items1 @ (key, a) # items2)
              \<and> tzs key \<noteq> None \<and> vals a \<noteq> None
              \<and> fst (join_result_for_correct_time gettz junk results (Datetime utc))
                  = map (merged_page junk) ps
                    @ day\<lparr>areas := Some (map (merged_item junk) items1
                             @ (key, (add_junk junk a)\<lparr>vals := None\<rparr>) # items2)\<rparr> # qs))"
proof -
  obtain results' r where
    m: "merge_days gettz junk (Datetime utc) results None = (results', r)"
    by (cases "merge_days gettz junk (Datetime utc) results None")
  show ?thesis
  proof (cases r)
    case (Inl e)
    have f: "fst (join_result_for_correct_time gettz junk results (Datetime utc)) = results'"
      and s: "snd (join_result_for_correct_time gettz junk results (Datetime utc)) = Inl e"
      using m Inl by (simp_all add: join_result_for_correct_time_def)
    show ?thesis
    proof (cases "e = InvalidValueException")
      case True
      from merge_days_fst_Inl [OF m [unfolded Inl]] True
      have "\<exists>ps day qs items1 key a items2.
              results = ps @ day # qs
              \<and> areas day = Some (items1 @ (key, a) # items2)
              \<and> tzs key \<noteq> None \<and> vals a \<noteq> None
              \<and> results' = map (merged_page junk) ps
                    @ day\<lparr>areas := Some (map (merged_item junk) items1
                             @ (key, (add_junk junk a)\<lparr>vals := None\<rparr>) # items2)\<rparr> # qs"
        by blast
      then show ?thesis unfolding f s by simp
    next
      case False
      then show ?thesis unfolding s by simp
    qed
  next
    case (Inr fin)
    from merge_days_fst_Inr [OF m [unfolded Inr]] m Inr show ?thesis
      unfolding join_result_for_correct_time_def by simp
  qed
qed

theorem merge_mutates_pages_witness:
  "fst (join_result_for_correct_time example_gettz example_junk
          [example_page1, example_page2, example_page3] (Datetime example_utc))
     = map (merged_page example_junk) [example_page1, example_page2, example_page3]
   \<and> (\<exists>ps day qs items1 key a items2.
         [example_page1, example_bad_page, example_page3] = ps @ day # qs
         \<and> areas day = Some (items1 @ (key, a) # items2)
         \<and> tzs key \<noteq> None \<and> vals a \<noteq> None
         \<and> fst (join_result_for_correct_time example_gettz example_junk
                  [example_page1, example_bad_page, example_page3] (Datetime example_utc))
             = map (merged_page example_junk) ps
               @ day\<lparr>areas := Some (map (merged_item example_junk) items1
                        @ (key, (add_junk example_junk a)\<lparr>vals := None\<rparr>) # items2)\<rparr> # qs)"
proof
  from merge_mutates_pages [of example_gettz example_junk
      "[example_page1, example_page2, example_page3]" example_utc] example_join
  show "fst (join_result_for_correct_time example_gettz example_junk
          [example_page1, example_page2, example_page3] (Datetime example_utc))
     = map (merged_page example_junk) [example_page1, example_page2, example_page3]"
    by blast
  have "snd (join_result_for_correct_time example_gettz example_junk
          [example_page1, example_bad_page, example_page3] (Datetime example_utc))
        = Inl InvalidValueException"
    by (simp add: example_join_bad)
  with merge_mutates_pages [of example_gettz example_junk
      "[example_page1, example_bad_page, example_page3]" example_utc]
  show "\<exists>ps day qs items1 key a items2.
         [example_page1, example_bad_page, example_page3] = ps @ day # qs
         \<and> areas day = Some (items1 @ (key, a) # items2)
         \<and> tzs key \<noteq> None \<and> vals a \<noteq> None
         \<and> fst (join_result_for_correct_time example_gettz example_junk
                  [example_page1, example_bad_page, example_page3] (Datetime example_utc))
             = map (merged_page example_junk) ps
               @ day\<lparr>areas := Some (map (merged_item example_junk) items1
                        @ (key, (add_junk example_junk a)\<lparr>vals := None\<rparr>) # items2)\<rparr> # qs"
    by blast
qed

end
